theory Spec2Isabelle
  imports Main
begin

section \<open>Python values and built-ins used by the processors\<close>

text \<open>
  The exceptions of the source are values: every function that can raise returns
  \<open>error + 'a\<close>, with \<open>Inl\<close> the exception. \<open>External\<close> stands for an exception raised
  inside a collaborator (tokenizer, offset utility) whose class the processor never
  inspects: the source only catches it with \<^verbatim>\<open>except Exception\<close>. \<open>InputFormat\<close> is
  the \<^verbatim>\<open>Exception("Input does not have the expected format")\<close> of
  \<^verbatim>\<open>convert_qa_input_dict\<close>; \<open>NameError\<close> covers its subclass \<^verbatim>\<open>UnboundLocalError\<close>.
\<close>

datatype error =
    AssertionError | KeyError | IndexError | ValueError | TypeError
  | AttributeError | NameError | InputFormat | External

definition bind_err :: "error + 'a \<Rightarrow> ('a \<Rightarrow> error + 'b) \<Rightarrow> error + 'b" where
  "bind_err m f = (case m of Inl e \<Rightarrow> Inl e | Inr x \<Rightarrow> f x)"

text \<open>
  Python sequences are lists; integers are unbounded, so \<open>int\<close>. A string is a
  \<open>char list\<close> whose characters stand for code points below 256.

  A slice \<^verbatim>\<open>xs[lo:hi]\<close> never raises: an absent bound is the end of the list, a negative
  bound counts from the right, and both are clamped into \<open>0..len(xs)\<close>.
\<close>

definition slice_bound :: "nat \<Rightarrow> int \<Rightarrow> nat" where
  "slice_bound n i = (if i < 0 then nat (max 0 (int n + i)) else min (nat i) n)"

definition py_slice :: "'a list \<Rightarrow> int option \<Rightarrow> int option \<Rightarrow> 'a list" where
  "py_slice xs lo hi =
     (let n = length xs;
          l = (case lo of None \<Rightarrow> 0 | Some i \<Rightarrow> slice_bound n i);
          h = (case hi of None \<Rightarrow> n | Some i \<Rightarrow> slice_bound n i)
      in take (h - l) (drop l xs))"

text \<open>\<^verbatim>\<open>[v] * k\<close>: a list of \<open>k\<close> copies, empty when \<open>k\<close> is negative.\<close>

definition py_repeat :: "'a \<Rightarrow> int \<Rightarrow> 'a list" where
  "py_repeat v k = replicate (nat k) v"

text \<open>\<^verbatim>\<open>xs.index(v)\<close>: the first position of \<open>v\<close>, ValueError when it is absent.\<close>

fun py_index :: "'a list \<Rightarrow> 'a \<Rightarrow> error + int" where
  "py_index [] v = Inl ValueError"
| "py_index (x # xs) v =
     (if x = v then Inr 0
      else case py_index xs v of Inl e \<Rightarrow> Inl e | Inr i \<Rightarrow> Inr (i + 1))"

text \<open>
  \<^verbatim>\<open>str.strip()\<close> removes white space at both ends. The code points below 256 that
  Python counts as white space are 9 to 13, 28 to 32, 133 and 160.
\<close>

definition py_isspace :: "char \<Rightarrow> bool" where
  "py_isspace c =
     (let k = (of_char c :: nat)
      in (9 \<le> k \<and> k \<le> 13) \<or> (28 \<le> k \<and> k \<le> 32) \<or> k = 133 \<or> k = 160)"

definition py_strip :: "string \<Rightarrow> string" where
  "py_strip s = rev (dropWhile py_isspace (rev (dropWhile py_isspace s)))"

text \<open>\<^verbatim>\<open>a in b\<close> on strings: \<open>a\<close> occurs in \<open>b\<close> as a contiguous substring.\<close>

fun is_prefix :: "string \<Rightarrow> string \<Rightarrow> bool" where
  "is_prefix [] ys = True"
| "is_prefix (x # xs) [] = False"
| "is_prefix (x # xs) (y # ys) = (x = y \<and> is_prefix xs ys)"

fun py_in_str :: "string \<Rightarrow> string \<Rightarrow> bool" where
  "py_in_str a [] = (a = [])"
| "py_in_str a (c # cs) = (is_prefix a (c # cs) \<or> py_in_str a cs)"

text \<open>\<^verbatim>\<open>s.split(sep)\<close> for a one-character separator: always at least one part.\<close>

fun py_split :: "char \<Rightarrow> string \<Rightarrow> string list" where
  "py_split sep [] = [[]]"
| "py_split sep (c # cs) =
     (case py_split sep cs of
        [] \<Rightarrow> [[]]
      | p # ps \<Rightarrow> if c = sep then [] # p # ps else (c # p) # ps)"

text \<open>
  \<^verbatim>\<open>int(s)\<close> on a string: white space around, an optional sign, then decimal digits in
  which single underscores may separate digits. Anything else raises ValueError. The
  white space that \<^verbatim>\<open>int\<close> skips is narrower than that of \<^verbatim>\<open>strip\<close>: of the code
  points below 256 it is 9 to 13, 32, 133 and 160, not 28 to 31.
\<close>

definition int_isspace :: "char \<Rightarrow> bool" where
  "int_isspace c =
     (let k = (of_char c :: nat)
      in (9 \<le> k \<and> k \<le> 13) \<or> k = 32 \<or> k = 133 \<or> k = 160)"

definition int_strip :: "string \<Rightarrow> string" where
  "int_strip s = rev (dropWhile int_isspace (rev (dropWhile int_isspace s)))"

definition digit_val :: "char \<Rightarrow> int option" where
  "digit_val c =
     (let k = (of_char c :: nat)
      in if 48 \<le> k \<and> k \<le> 57 then Some (int k - 48) else None)"

fun parse_digits :: "int \<Rightarrow> string \<Rightarrow> int option" where
  "parse_digits acc [] = Some acc"
| "parse_digits acc [c] =
     (case digit_val c of None \<Rightarrow> None | Some d \<Rightarrow> Some (10 * acc + d))"
| "parse_digits acc (c # c' # cs) =
     (case digit_val c of
        None \<Rightarrow> None
      | Some d \<Rightarrow>
          if c' = CHR ''_'' then (if cs = [] then None else
              (case digit_val (hd cs) of None \<Rightarrow> None
               | Some _ \<Rightarrow> parse_digits (10 * acc + d) cs))
          else parse_digits (10 * acc + d) (c' # cs))"

definition py_int :: "string \<Rightarrow> error + int" where
  "py_int s =
     (let t = int_strip s;
          (neg, body) =
            (case t of
               c # cs \<Rightarrow> if c = CHR ''-'' then (True, cs)
                          else if c = CHR ''+'' then (False, cs) else (False, t)
             | [] \<Rightarrow> (False, t))
      in if body = [] then Inl ValueError
         else case parse_digits 0 body of
                None \<Rightarrow> Inl ValueError
              | Some v \<Rightarrow> Inr (if neg then - v else v))"

text \<open>\<^verbatim>\<open>[f(x) for x in xs]\<close> where \<open>f\<close> may raise: the first exception ends the loop.\<close>

fun map_err :: "('a \<Rightarrow> error + 'b) \<Rightarrow> 'a list \<Rightarrow> error + 'b list" where
  "map_err f [] = Inr []"
| "map_err f (x # xs) =
     (case f x of
        Inl e \<Rightarrow> Inl e
      | Inr y \<Rightarrow> (case map_err f xs of Inl e \<Rightarrow> Inl e | Inr ys \<Rightarrow> Inr (y # ys)))"

text \<open>\<^verbatim>\<open>str(n)\<close> of an integer, as the f-string that builds a sample id formats it.\<close>

fun nat_digits :: "nat \<Rightarrow> string" where
  "nat_digits n =
     (if n < 10 then [''0123456789'' ! n]
      else nat_digits (n div 10) @ [''0123456789'' ! (n mod 10)])"

definition py_str_int :: "int \<Rightarrow> string" where
  "py_str_int i = (if i < 0 then CHR ''-'' # nat_digits (nat (- i)) else nat_digits (nat i))"

section \<open>Baskets and samples\<close>

text \<open>
  \<^verbatim>\<open>Sample\<close> and \<^verbatim>\<open>SampleBasket\<close> hold an id, the clear text, the tokenized form and the
  features; \<^verbatim>\<open>tokenized\<close>, \<^verbatim>\<open>features\<close> and \<^verbatim>\<open>samples\<close> may be \<^verbatim>\<open>None\<close>. The two
  processors put different dictionaries into them, so the records are polymorphic. A
  dictionary with fixed keys is a record (its fields carry a prefix naming the
  dictionary); a key that may be missing is an \<open>option\<close> field.
\<close>

record ('ct, 'tk, 'ft) sample =
  id_str :: string
  clear_text :: 'ct
  tokenized :: "'tk option"
  features :: "'ft list option"

record ('i, 'raw, 'ct, 'tk, 'ft) sample_basket =
  id_internal :: 'i
  id_external :: "string option"
  raw :: 'raw
  samples :: "('ct, 'tk, 'ft) sample list option"

subsection \<open>Processor base class\<close>

text \<open>
  \<^verbatim>\<open>_check_sample_features\<close>: a basket is complete when its sample list is neither
  \<^verbatim>\<open>None\<close> nor empty and no sample has \<^verbatim>\<open>features is None\<close>.
\<close>

definition check_sample_features :: "('i, 'raw, 'ct, 'tk, 'ft) sample_basket \<Rightarrow> bool" where
  "check_sample_features basket =
     (case samples basket of
        None \<Rightarrow> False
      | Some ss \<Rightarrow> if length ss = 0 then False else list_all (\<lambda>s. features s \<noteq> None) ss)"

record task =
  label_list :: "string list"
  metric :: string
  label_tensor_name :: string
  label_name :: string
  label_column_name :: "string option"
  text_column_name :: "string option"
  task_type :: "string option"

text \<open>
  \<^verbatim>\<open>add_task\<close>: a \<^verbatim>\<open>label_list\<close> that is not a list (here: \<^verbatim>\<open>None\<close>) raises ValueError.
\<close>

definition add_task ::
  "string \<Rightarrow> string \<Rightarrow> string list option \<Rightarrow> string option \<Rightarrow> string option \<Rightarrow>
   string option \<Rightarrow> string option \<Rightarrow> (string \<rightharpoonup> task) \<Rightarrow> error + (string \<rightharpoonup> task)" where
  "add_task name metric_arg label_list_arg label_column_name_arg label_name_arg
            task_type_arg text_column_name_arg tasks0 =
     (case label_list_arg of
        None \<Rightarrow> Inl ValueError
      | Some ll \<Rightarrow>
          let ln = (case label_name_arg of None \<Rightarrow> name @ ''_label'' | Some l \<Rightarrow> l)
          in Inr (tasks0(name \<mapsto>
               \<lparr>label_list = ll, metric = metric_arg, label_tensor_name = ln @ ''_ids'',
                label_name = ln, label_column_name = label_column_name_arg,
                text_column_name = text_column_name_arg, task_type = task_type_arg\<rparr>)))"

section \<open>SquadProcessor\<close>

subsection \<open>Data of the QA pipeline\<close>

text \<open>
  A token is a token id; the constructor probes the tokenizer with the strings
  \<^verbatim>\<open>"a"\<close> and \<^verbatim>\<open>"b"\<close>, so a token list can also hold strings.
\<close>

datatype token = Id int | Str string

record tokenizer =
  build_inputs_with_special_tokens :: "token list \<Rightarrow> token list \<Rightarrow> token list"
  create_token_type_ids_from_sequences :: "token list \<Rightarrow> token list \<Rightarrow> int list"
  num_special_tokens_to_add :: "bool \<Rightarrow> int"
  pad_token_id :: token

record answer =
  ans_text :: string
  ans_answer_start :: int

record qa_entry =
  qa_question :: string
  qa_id :: "string option"
  qa_answers :: "answer list"
  qa_answer_type :: "string option"

record infer_dict =
  in_context :: "string option"
  in_qas :: "qa_entry list option"
  in_text :: "string option"
  in_questions :: "string list option"
  in_id :: "string option"

record qa_raw =
  raw_document_text :: string
  raw_document_tokens :: "token list"
  raw_document_offsets :: "int list"
  raw_document_start_of_word :: "int list"
  raw_question_text :: string
  raw_question_tokens :: "token list"
  raw_question_offsets :: "int list"
  raw_question_start_of_word :: "int list"
  raw_answers :: "answer list"

record passage_span =
  span_passage_id :: int
  span_passage_start_t :: int
  span_passage_end_t :: int
  span_passage_start_c :: int
  span_passage_end_c :: int

record qa_clear_text =
  ct_passage_text :: string
  ct_question_text :: string
  ct_passage_id :: int

text \<open>
  The label matrix is a numpy array of shape \<open>(max_answers, 2)\<close>: a list of rows
  \<open>(start, end)\<close>. Its entries are positions in token arrays, far below the range of
  a 64-bit integer, so they are \<open>int\<close>.
\<close>

type_synonym label_idxs = "(int \<times> int) list"

record qa_tokenized =
  tok_passage_start_t :: int
  tok_passage_start_c :: int
  tok_passage_tokens :: "token list"
  tok_passage_start_of_word :: "int list"
  tok_question_tokens :: "token list"
  tok_question_offsets :: "int list"
  tok_question_start_of_word :: "int list"
  tok_labels :: "label_idxs option"

record qa_feature =
  ft_input_ids :: "token list"
  ft_padding_mask :: "int list"
  ft_segment_ids :: "int list"
  ft_passage_start_t :: int
  ft_start_of_word :: "int list"
  ft_labels :: label_idxs
  ft_id :: "int list"
  ft_seq_2_start_t :: int
  ft_span_mask :: "int list"

type_synonym qa_sample = "(qa_clear_text, qa_tokenized, qa_feature) sample"
type_synonym qa_basket = "(string, qa_raw, qa_clear_text, qa_tokenized, qa_feature) sample_basket"

text \<open>
  The collaborators of the pipeline are not part of the processor: the batch tokenizer,
  the two offset utilities and the dataset sink are parameters, each a function of its
  arguments that may raise.
\<close>

record 'ds qa_env =
  tokenize_batch_question_answering ::
    "infer_dict list \<Rightarrow> tokenizer \<Rightarrow> int list option \<Rightarrow> error + qa_basket list"
  get_passage_offsets :: "int list \<Rightarrow> int \<Rightarrow> int \<Rightarrow> string \<Rightarrow> error + passage_span list"
  offset_to_token_idx_vecorized :: "int list \<Rightarrow> int \<Rightarrow> error + int"
  convert_features_to_dataset :: "qa_feature list \<Rightarrow> error + 'ds \<times> string list"

record squad_processor =
  tokenizer :: tokenizer
  max_seq_len :: int
  doc_stride :: int
  max_query_length :: int
  max_answers :: int
  sp_toks_start :: int
  sp_toks_mid :: int
  sp_toks_end :: int
  tasks :: "string \<rightharpoonup> task"
  baskets :: "qa_basket list"
  problematic_sample_ids :: "string set"

subsection \<open>Construction\<close>

text \<open>
  \<^verbatim>\<open>_initialize_special_tokens_count\<close> joins the one-token sequences \<^verbatim>\<open>["a"]\<close> and
  \<^verbatim>\<open>["b"]\<close> and reads off how many special tokens stand before, between and after them.
\<close>

definition initialize_special_tokens_count :: "squad_processor \<Rightarrow> error + squad_processor" where
  "initialize_special_tokens_count p =
     (let vec = build_inputs_with_special_tokens (tokenizer p) [Str ''a''] [Str ''b'']
      in bind_err (py_index vec (Str ''a'')) (\<lambda>ia.
         bind_err (py_index vec (Str ''b'')) (\<lambda>ib.
           Inr (p\<lparr>sp_toks_start := ia,
                  sp_toks_mid := ib - ia - 1,
                  sp_toks_end := int (length vec) - ib - 1\<rparr>))))"

definition truthy_str :: "string option \<Rightarrow> bool" where
  "truthy_str s = (case s of None \<Rightarrow> False | Some t \<Rightarrow> t \<noteq> [])"

definition truthy_list :: "'a list option \<Rightarrow> bool" where
  "truthy_list s = (case s of None \<Rightarrow> False | Some t \<Rightarrow> t \<noteq> [])"

text \<open>
  \<^verbatim>\<open>SquadProcessor.__init__\<close>: the assertion on \<^verbatim>\<open>doc_stride\<close> comes first; then the
  base class stores the parameters (\<^verbatim>\<open>baskets = []\<close>, no problematic ids; file names
  and proxies play no part in the conversion and are left out), the special tokens are
  counted, and the default task is added when a metric and a label list are given.
  The three counts do not exist before they are computed; the record starts them at 0.
\<close>

definition SquadProcessor_init ::
  "tokenizer \<Rightarrow> int \<Rightarrow> string list option \<Rightarrow> string option \<Rightarrow> int \<Rightarrow> int \<Rightarrow> int \<Rightarrow>
   error + squad_processor" where
  "SquadProcessor_init tokenizer_arg max_seq_len_arg label_list_arg metric_arg
                       doc_stride_arg max_query_length_arg max_answers_arg =
     (if \<not> doc_stride_arg < max_seq_len_arg - max_query_length_arg then Inl AssertionError
      else
        bind_err (initialize_special_tokens_count
          \<lparr>tokenizer = tokenizer_arg, max_seq_len = max_seq_len_arg,
           doc_stride = doc_stride_arg, max_query_length = max_query_length_arg,
           max_answers = max_answers_arg, sp_toks_start = 0, sp_toks_mid = 0,
           sp_toks_end = 0, tasks = Map.empty, baskets = [],
           problematic_sample_ids = {}\<rparr>) (\<lambda>p.
        if truthy_str metric_arg \<and> truthy_list label_list_arg then
          bind_err (add_task ''question_answering'' (the metric_arg) label_list_arg
                      None None None None (tasks p)) (\<lambda>ts. Inr (p\<lparr>tasks := ts\<rparr>))
        else Inr p))"

subsection \<open>Stage 1: input normalisation\<close>

text \<open>
  \<^verbatim>\<open>convert_qa_input_dict\<close> repeats the assertion of the constructor, returns a
  dictionary that has both \<^verbatim>\<open>"context"\<close> and \<^verbatim>\<open>"qas"\<close> as it is, and otherwise builds
  the internal form from \<^verbatim>\<open>"questions"\<close>, \<^verbatim>\<open>"text"\<close> and the optional \<^verbatim>\<open>"id"\<close>. A
  missing key (KeyError) is raised again as the format exception.
\<close>

definition convert_qa_input_dict :: "squad_processor \<Rightarrow> infer_dict \<Rightarrow> error + infer_dict" where
  "convert_qa_input_dict p d =
     (if \<not> doc_stride p < max_seq_len p - max_query_length p then Inl AssertionError
      else if in_context d \<noteq> None \<and> in_qas d \<noteq> None then Inr d
      else case in_questions d of
        None \<Rightarrow> Inl InputFormat
      | Some questions \<Rightarrow>
         (case in_text d of
            None \<Rightarrow> Inl InputFormat
          | Some text \<Rightarrow>
              let uid = in_id d;
                  qas = map (\<lambda>q. \<lparr>qa_question = q, qa_id = uid, qa_answers = [],
                                  qa_answer_type = None\<rparr>) questions
              in Inr \<lparr>in_context = Some text, in_qas = Some qas, in_text = None,
                      in_questions = None, in_id = None\<rparr>))"

subsection \<open>Stage 3: splitting documents into passages\<close>

text \<open>
  \<^verbatim>\<open>_split_docs_into_passages\<close>: a basket with an empty document is skipped
  (\<^verbatim>\<open>continue\<close>: its \<^verbatim>\<open>samples\<close> stay as they were). Otherwise the token budget of a
  passage is \<^verbatim>\<open>max_seq_len\<close> minus the truncated question minus the special tokens, the
  offset utility gives the spans (none when it raises), and every span becomes a sample
  whose id is the basket id, a dash and the passage id.
\<close>

definition span_to_sample :: "squad_processor \<Rightarrow> qa_basket \<Rightarrow> passage_span \<Rightarrow> qa_sample" where
  "span_to_sample p basket passage_span =
     (let passage_start_t = span_passage_start_t passage_span;
          passage_end_t = span_passage_end_t passage_span;
          passage_start_c = span_passage_start_c passage_span;
          passage_end_c = span_passage_end_c passage_span;
          r = raw basket
      in \<lparr>id_str = id_internal basket @ ''-'' @ py_str_int (span_passage_id passage_span),
          clear_text =
            \<lparr>ct_passage_text =
               py_slice (raw_document_text r) (Some passage_start_c) (Some passage_end_c),
             ct_question_text = raw_question_text r,
             ct_passage_id = span_passage_id passage_span\<rparr>,
          tokenized = Some
            \<lparr>tok_passage_start_t = passage_start_t,
             tok_passage_start_c = passage_start_c,
             tok_passage_tokens =
               py_slice (raw_document_tokens r) (Some passage_start_t) (Some passage_end_t),
             tok_passage_start_of_word =
               py_slice (raw_document_start_of_word r) (Some passage_start_t)
                 (Some passage_end_t),
             tok_question_tokens =
               py_slice (raw_question_tokens r) None (Some (max_query_length p)),
             tok_question_offsets =
               py_slice (raw_question_offsets r) None (Some (max_query_length p)),
             tok_question_start_of_word =
               py_slice (raw_question_start_of_word r) None (Some (max_query_length p)),
             tok_labels = None\<rparr>,
          features = None\<rparr>)"

definition split_basket :: "squad_processor \<Rightarrow> 'ds qa_env \<Rightarrow> int \<Rightarrow> qa_basket \<Rightarrow> qa_basket" where
  "split_basket p env n_special_tokens basket =
     (if raw_document_text (raw basket) = [] then basket
      else
        let passage_len_t =
              max_seq_len p
              - int (length (py_slice (raw_question_tokens (raw basket)) None
                       (Some (max_query_length p))))
              - n_special_tokens;
            passage_spans =
              (case get_passage_offsets env (raw_document_offsets (raw basket))
                      (doc_stride p) passage_len_t (raw_document_text (raw basket)) of
                 Inl e \<Rightarrow> []
               | Inr spans \<Rightarrow> spans)
        in basket\<lparr>samples := Some (map (span_to_sample p basket) passage_spans)\<rparr>)"

definition split_docs_into_passages ::
  "squad_processor \<Rightarrow> 'ds qa_env \<Rightarrow> qa_basket list \<Rightarrow> qa_basket list" where
  "split_docs_into_passages p env bs =
     map (split_basket p env (num_special_tokens_to_add (tokenizer p) True)) bs"

subsection \<open>Stage 4: answers as token spans\<close>

text \<open>
  \<^verbatim>\<open>np.full((max_answers, 2), fill_value=-1)\<close> raises ValueError for a negative number
  of rows; writing row \<open>i\<close> raises IndexError when the matrix has no such row.
\<close>

definition np_full :: "int \<Rightarrow> int \<Rightarrow> error + label_idxs" where
  "np_full rows v = (if rows < 0 then Inl ValueError else Inr (replicate (nat rows) (v, v)))"

definition set_row :: "label_idxs \<Rightarrow> nat \<Rightarrow> int \<times> int \<Rightarrow> error + label_idxs" where
  "set_row label_idxs i row =
     (if i < length label_idxs then Inr (label_idxs[i := row]) else Inl IndexError)"

datatype warning = AnswerNotContained | AnswerMismatch

text \<open>
  The row written for an answer whose first and last character lie in the tokens
  \<open>answer_start_t\<close> and \<open>answer_end_t\<close>, counted from the start of the passage: the
  source tests \<^verbatim>\<open>passage_len_t > answer_start_t >= 0 and passage_len_t >= answer_end_t >= 0\<close>
  and then shifts both indices by the special tokens and the question, or writes
  \<open>(0, 0)\<close>.
\<close>

definition answer_span :: "squad_processor \<Rightarrow> qa_tokenized \<Rightarrow> int \<Rightarrow> int \<Rightarrow> int \<times> int" where
  "answer_span p tk answer_start_t answer_end_t =
     (let question_len_t = int (length (tok_question_tokens tk));
          passage_len_t = int (length (tok_passage_tokens tk))
      in if passage_len_t > answer_start_t \<and> answer_start_t \<ge> 0
            \<and> passage_len_t \<ge> answer_end_t \<and> answer_end_t \<ge> 0
         then (sp_toks_start p + question_len_t + sp_toks_mid p + answer_start_t,
               sp_toks_start p + question_len_t + sp_toks_mid p + answer_end_t)
         else (0, 0))"

text \<open>
  The answer check: skipped when \<^verbatim>\<open>answer_start_t < 0 or answer_end_t >= passage_len_t\<close>;
  otherwise the answer text must occur in the document, and the characters of the
  document from \<^verbatim>\<open>answer_start_c\<close> to \<^verbatim>\<open>answer_end_c\<close> must be the answer text, both
  stripped. The result is the warning that is logged before the \<^verbatim>\<open>break\<close>.
\<close>

definition answer_check ::
  "qa_raw \<Rightarrow> qa_tokenized \<Rightarrow> answer \<Rightarrow> int \<Rightarrow> int \<Rightarrow> warning option" where
  "answer_check r tk answer answer_start_t answer_end_t =
     (let passage_len_t = int (length (tok_passage_tokens tk));
          answer_start_c = ans_answer_start answer;
          answer_end_c = answer_start_c + int (length (ans_text answer)) - 1
      in if answer_start_t < 0 \<or> answer_end_t \<ge> passage_len_t then None
         else
           let doc_text = raw_document_text r;
               answer_indices =
                 py_slice doc_text (Some answer_start_c) (Some (answer_end_c + 1));
               answer_text = ans_text answer
           in if \<not> py_in_str answer_text doc_text then Some AnswerNotContained
              else if py_strip answer_indices \<noteq> py_strip answer_text then Some AnswerMismatch
              else None)"

text \<open>
  The body of the loop over the answers, for answer number \<open>i\<close>: both offsets are
  looked up in the document, made relative to the passage, the row is written, and a
  failed check overwrites it with \<open>-100\<close>. The tokenized dictionary is read only after
  both offsets have been looked up; a sample without one raises TypeError there.
\<close>

definition convert_answer ::
  "squad_processor \<Rightarrow> 'ds qa_env \<Rightarrow> qa_raw \<Rightarrow> qa_tokenized option \<Rightarrow> nat \<Rightarrow> answer \<Rightarrow>
   label_idxs \<Rightarrow> error + label_idxs \<times> warning option" where
  "convert_answer p env r tk_opt i answer label_idxs =
     (let answer_len_c = int (length (ans_text answer));
          answer_start_c = ans_answer_start answer;
          answer_end_c = answer_start_c + answer_len_c - 1
      in bind_err (offset_to_token_idx_vecorized env (raw_document_offsets r) answer_start_c)
           (\<lambda>start_doc_t.
         bind_err (offset_to_token_idx_vecorized env (raw_document_offsets r) answer_end_c)
           (\<lambda>end_doc_t.
         case tk_opt of
           None \<Rightarrow> Inl TypeError
         | Some tk \<Rightarrow>
            let answer_start_t = start_doc_t - tok_passage_start_t tk;
                answer_end_t = end_doc_t - tok_passage_start_t tk
            in bind_err (set_row label_idxs i (answer_span p tk answer_start_t answer_end_t))
                 (\<lambda>label_idxs1.
                    case answer_check r tk answer answer_start_t answer_end_t of
                      None \<Rightarrow> Inr (label_idxs1, None)
                    | Some w \<Rightarrow>
                        bind_err (set_row label_idxs1 i (- 100, - 100)) (\<lambda>label_idxs2.
                          Inr (label_idxs2, Some w))))))"

text \<open>The loop over \<^verbatim>\<open>enumerate(basket.raw["answers"])\<close>; a warning ends it.\<close>

fun convert_answer_loop ::
  "squad_processor \<Rightarrow> 'ds qa_env \<Rightarrow> qa_raw \<Rightarrow> qa_tokenized option \<Rightarrow> nat \<Rightarrow> answer list \<Rightarrow>
   label_idxs \<Rightarrow> error + label_idxs \<times> warning option" where
  "convert_answer_loop p env r tk_opt i [] label_idxs = Inr (label_idxs, None)"
| "convert_answer_loop p env r tk_opt i (answer # rest) label_idxs =
     (case convert_answer p env r tk_opt i answer label_idxs of
        Inl e \<Rightarrow> Inl e
      | Inr (label_idxs1, Some w) \<Rightarrow> Inr (label_idxs1, Some w)
      | Inr (label_idxs1, None) \<Rightarrow> convert_answer_loop p env r tk_opt (Suc i) rest label_idxs1)"

text \<open>
  One sample: the matrix starts at \<open>-1\<close>; with no answers, or after an answer error in
  an earlier sample of the basket, row 0 becomes \<open>(0, 0)\<close>; otherwise the answers are
  converted. The result is the sample with its labels, the flag \<^verbatim>\<open>error_in_answer\<close> and
  the warnings logged.
\<close>

definition convert_answers_sample ::
  "squad_processor \<Rightarrow> 'ds qa_env \<Rightarrow> qa_raw \<Rightarrow> bool \<Rightarrow> qa_sample \<Rightarrow>
   error + qa_sample \<times> bool \<times> warning list" where
  "convert_answers_sample p env r error_in_answer s =
     bind_err (np_full (max_answers p) (- 1)) (\<lambda>label_idxs0.
     bind_err
       (if error_in_answer \<or> length (raw_answers r) = 0 then
          bind_err (set_row label_idxs0 0 (0, 0)) (\<lambda>l. Inr (l, None))
        else convert_answer_loop p env r (tokenized s) 0 (raw_answers r) label_idxs0)
       (\<lambda>(label_idxs, w).
          case tokenized s of
            None \<Rightarrow> Inl TypeError
          | Some tk \<Rightarrow>
              Inr (s\<lparr>tokenized := Some (tk\<lparr>tok_labels := Some label_idxs\<rparr>)\<rparr>,
                   error_in_answer \<or> w \<noteq> None,
                   (case w of None \<Rightarrow> [] | Some x \<Rightarrow> [x]))))"

fun convert_answers_samples ::
  "squad_processor \<Rightarrow> 'ds qa_env \<Rightarrow> qa_raw \<Rightarrow> bool \<Rightarrow> qa_sample list \<Rightarrow>
   error + qa_sample list \<times> warning list" where
  "convert_answers_samples p env r error_in_answer [] = Inr ([], [])"
| "convert_answers_samples p env r error_in_answer (s # ss) =
     (case convert_answers_sample p env r error_in_answer s of
        Inl e \<Rightarrow> Inl e
      | Inr (s1, err1, ws) \<Rightarrow>
          (case convert_answers_samples p env r err1 ss of
             Inl e \<Rightarrow> Inl e
           | Inr (ss1, ws1) \<Rightarrow> Inr (s1 # ss1, ws @ ws1)))"

text \<open>
  \<^verbatim>\<open>_convert_answers\<close>: \<^verbatim>\<open>error_in_answer\<close> starts at False in every basket; a basket
  whose \<^verbatim>\<open>samples\<close> is \<^verbatim>\<open>None\<close> cannot be enumerated (TypeError).
\<close>

definition convert_answers_basket ::
  "squad_processor \<Rightarrow> 'ds qa_env \<Rightarrow> qa_basket \<Rightarrow> error + qa_basket \<times> warning list" where
  "convert_answers_basket p env basket =
     (case samples basket of
        None \<Rightarrow> Inl TypeError
      | Some ss \<Rightarrow>
          bind_err (convert_answers_samples p env (raw basket) False ss)
            (\<lambda>(ss1, ws). Inr (basket\<lparr>samples := Some ss1\<rparr>, ws)))"

fun convert_answers ::
  "squad_processor \<Rightarrow> 'ds qa_env \<Rightarrow> qa_basket list \<Rightarrow> error + qa_basket list \<times> warning list" where
  "convert_answers p env [] = Inr ([], [])"
| "convert_answers p env (basket # rest) =
     (case convert_answers_basket p env basket of
        Inl e \<Rightarrow> Inl e
      | Inr (b1, ws) \<Rightarrow>
          (case convert_answers p env rest of
             Inl e \<Rightarrow> Inl e
           | Inr (bs1, ws1) \<Rightarrow> Inr (b1 # bs1, ws @ ws1)))"

text \<open>
  What the loop does with one answer, read off its two offset lookups: \<open>tok_span\<close> is
  the pair of token indices relative to the passage; an answer passes with a row when
  its check gives no warning and the row is its span; it fails with a warning when its
  check gives that warning.
\<close>

definition tok_span :: "'ds qa_env \<Rightarrow> qa_raw \<Rightarrow> qa_tokenized \<Rightarrow> answer \<Rightarrow> (int \<times> int) option" where
  "tok_span env r tk a =
     (case offset_to_token_idx_vecorized env (raw_document_offsets r) (ans_answer_start a) of
        Inl e \<Rightarrow> None
      | Inr sd \<Rightarrow>
         (case offset_to_token_idx_vecorized env (raw_document_offsets r)
                 (ans_answer_start a + int (length (ans_text a)) - 1) of
            Inl e \<Rightarrow> None
          | Inr ed \<Rightarrow> Some (sd - tok_passage_start_t tk, ed - tok_passage_start_t tk)))"

definition answer_passes ::
  "squad_processor \<Rightarrow> 'ds qa_env \<Rightarrow> qa_raw \<Rightarrow> qa_tokenized \<Rightarrow> answer \<Rightarrow> int \<times> int \<Rightarrow> bool" where
  "answer_passes p env r tk a row =
     (case tok_span env r tk a of
        None \<Rightarrow> False
      | Some (st, et) \<Rightarrow> answer_check r tk a st et = None \<and> row = answer_span p tk st et)"

definition answer_fails ::
  "'ds qa_env \<Rightarrow> qa_raw \<Rightarrow> qa_tokenized \<Rightarrow> answer \<Rightarrow> warning \<Rightarrow> bool" where
  "answer_fails env r tk a x =
     (case tok_span env r tk a of
        None \<Rightarrow> False
      | Some (st, et) \<Rightarrow> answer_check r tk a st et = Some x)"

text \<open>
  A sample has the sentinel when a row of its label matrix is \<open>(-100, -100)\<close>. The
  matrix of a sample that is reached after an answer error in its basket, or in a basket
  without answers: row 0 is \<open>(0, 0)\<close>, every other row keeps the fill value.
\<close>

definition has_sentinel :: "qa_sample \<Rightarrow> bool" where
  "has_sentinel s =
     (case tokenized s of
        None \<Rightarrow> False
      | Some tk \<Rightarrow> (case tok_labels tk of None \<Rightarrow> False | Some l \<Rightarrow> (- 100, - 100) \<in> set l))"

definition no_answer_labels :: "squad_processor \<Rightarrow> label_idxs" where
  "no_answer_labels p = (replicate (nat (max_answers p)) (- 1, - 1))[0 := (0, 0)]"

subsection \<open>Stage 5: feature rows\<close>

text \<open>
  The variables that \<^verbatim>\<open>_passages_to_paddle_features\<close> assigns only when
  \<^verbatim>\<open>sample.tokenized is not None\<close>. They are local to the function, not to the loop:
  a sample without a tokenized dictionary is processed with the values left by the
  sample before it, and raises NameError when there was none.
\<close>

record qa_locals =
  loc_question_tokens :: "token list"
  loc_question_start_of_word :: "int list"
  loc_passage_start_t :: int
  loc_passage_tokens :: "token list"
  loc_passage_start_of_word :: "int list"
  loc_sample_id :: "int list"

definition sample_locals :: "qa_locals option \<Rightarrow> qa_sample \<Rightarrow> error + qa_locals" where
  "sample_locals loc s =
     (case tokenized s of
        Some tk \<Rightarrow>
          bind_err (map_err py_int (py_split CHR ''-'' (id_str s))) (\<lambda>sample_id.
            Inr \<lparr>loc_question_tokens = tok_question_tokens tk,
                 loc_question_start_of_word = tok_question_start_of_word tk,
                 loc_passage_start_t = tok_passage_start_t tk,
                 loc_passage_tokens = tok_passage_tokens tk,
                 loc_passage_start_of_word = tok_passage_start_of_word tk,
                 loc_sample_id = sample_id\<rparr>)
      | None \<Rightarrow> (case loc of None \<Rightarrow> Inl NameError | Some l \<Rightarrow> Inr l))"

text \<open>
  \<^verbatim>\<open>label_check\<close> and \<^verbatim>\<open>label_check2\<close> are both evaluated before the \<^verbatim>\<open>if\<close>; each
  reads the tokenized dictionary only when \<^verbatim>\<open>return_baskets\<close> is False.
\<close>

definition label_check :: "squad_processor \<Rightarrow> bool \<Rightarrow> qa_sample \<Rightarrow> error + bool" where
  "label_check p return_baskets s =
     (if return_baskets then Inr True
      else case tokenized s of
             None \<Rightarrow> Inl AttributeError
           | Some tk \<Rightarrow>
               Inr (int (length (case tok_labels tk of None \<Rightarrow> [] | Some l \<Rightarrow> l))
                    = max_answers p))"

definition label_check2 :: "bool \<Rightarrow> qa_sample \<Rightarrow> error + bool" where
  "label_check2 return_baskets s =
     (if return_baskets then Inr True
      else case tokenized s of
             None \<Rightarrow> Inl TypeError
           | Some tk \<Rightarrow>
               (case tok_labels tk of
                  None \<Rightarrow> Inl KeyError
                | Some l \<Rightarrow> Inr (list_all (\<lambda>(a, b). a > - 99 \<and> b > - 99) l)))"

text \<open>
  The five arrays of a row: question and passage joined by the tokenizer, the segment
  ids, the start-of-word flags and the two masks, each padded on the right by
  \<^verbatim>\<open>max_seq_len - len(input_ids)\<close> entries (none when that is negative). The length
  of \<^verbatim>\<open>input_ids\<close> is taken before the padding is appended.
\<close>

definition feature_arrays ::
  "squad_processor \<Rightarrow> qa_locals \<Rightarrow>
   token list \<times> int list \<times> int list \<times> int list \<times> int list" where
  "feature_arrays p l =
     (let question_len_t = int (length (loc_question_tokens l));
          passage_len_t = int (length (loc_passage_tokens l));
          input_ids0 =
            build_inputs_with_special_tokens (tokenizer p)
              (loc_question_tokens l) (loc_passage_tokens l);
          segment_ids0 =
            create_token_type_ids_from_sequences (tokenizer p)
              (loc_question_tokens l) (loc_passage_tokens l);
          start_of_word0 =
            py_repeat 0 (sp_toks_start p) @ loc_question_start_of_word l
            @ py_repeat 0 (sp_toks_mid p) @ loc_passage_start_of_word l
            @ py_repeat 0 (sp_toks_end p);
          padding_mask0 = py_repeat 1 (int (length input_ids0));
          span_mask0 =
            py_repeat 1 (sp_toks_start p) @ py_repeat 0 question_len_t
            @ py_repeat 0 (sp_toks_mid p) @ py_repeat 1 passage_len_t
            @ py_repeat 0 (sp_toks_end p);
          pad_idx = pad_token_id (tokenizer p);
          padding = py_repeat pad_idx (max_seq_len p - int (length input_ids0));
          zero_padding = py_repeat 0 (max_seq_len p - int (length input_ids0))
      in (input_ids0 @ padding, padding_mask0 @ zero_padding, segment_ids0 @ zero_padding,
          start_of_word0 @ zero_padding, span_mask0 @ zero_padding))"

text \<open>
  The row of one sample: the arrays are compared in length with each other, the id must
  have three parts, and the labels are checked unless the baskets are returned. The
  result is the sample and whether its id was recorded as problematic.
\<close>

definition sample_to_features ::
  "squad_processor \<Rightarrow> bool \<Rightarrow> qa_locals \<Rightarrow> qa_sample \<Rightarrow> error + qa_sample \<times> bool" where
  "sample_to_features p return_baskets l s =
     (case feature_arrays p l of
        (input_ids, padding_mask, segment_ids, start_of_word, span_mask) \<Rightarrow>
      let seq_2_start_t =
            sp_toks_start p + int (length (loc_question_tokens l)) + sp_toks_mid p;
          len_check =
            (length input_ids = length padding_mask
             \<and> length padding_mask = length segment_ids
             \<and> length segment_ids = length start_of_word
             \<and> length start_of_word = length span_mask);
          id_check = (length (loc_sample_id l) = 3)
      in bind_err (label_check p return_baskets s) (\<lambda>lc.
         bind_err (label_check2 return_baskets s) (\<lambda>lc2.
           if len_check \<and> id_check \<and> lc \<and> lc2 then
             (case tokenized s of
                None \<Rightarrow> Inl AttributeError
              | Some tk \<Rightarrow>
                  Inr (s\<lparr>features := Some
                         [\<lparr>ft_input_ids = input_ids,
                           ft_padding_mask = padding_mask,
                           ft_segment_ids = segment_ids,
                           ft_passage_start_t = loc_passage_start_t l,
                           ft_start_of_word = start_of_word,
                           ft_labels = (case tok_labels tk of None \<Rightarrow> [] | Some x \<Rightarrow> x),
                           ft_id = loc_sample_id l,
                           ft_seq_2_start_t = seq_2_start_t,
                           ft_span_mask = span_mask\<rparr>]\<rparr>, False))
           else Inr (s\<lparr>features := None\<rparr>, True))))"

text \<open>
  The loops over the samples of a basket and over the baskets. They carry the local
  variables from sample to sample and collect the ids to add to
  \<^verbatim>\<open>problematic_sample_ids\<close>.
\<close>

fun features_samples ::
  "squad_processor \<Rightarrow> bool \<Rightarrow> qa_locals option \<Rightarrow> qa_sample list \<Rightarrow>
   error + qa_sample list \<times> qa_locals option \<times> string set" where
  "features_samples p return_baskets loc [] = Inr ([], loc, {})"
| "features_samples p return_baskets loc (s # ss) =
     (case sample_locals loc s of
        Inl e \<Rightarrow> Inl e
      | Inr l \<Rightarrow>
         (case sample_to_features p return_baskets l s of
            Inl e \<Rightarrow> Inl e
          | Inr (s1, bad) \<Rightarrow>
             (case features_samples p return_baskets (Some l) ss of
                Inl e \<Rightarrow> Inl e
              | Inr (ss1, loc1, ids) \<Rightarrow>
                  Inr (s1 # ss1, loc1, (if bad then insert (id_str s) ids else ids)))))"

fun features_baskets ::
  "squad_processor \<Rightarrow> bool \<Rightarrow> qa_locals option \<Rightarrow> qa_basket list \<Rightarrow>
   error + qa_basket list \<times> qa_locals option \<times> string set" where
  "features_baskets p return_baskets loc [] = Inr ([], loc, {})"
| "features_baskets p return_baskets loc (basket # rest) =
     (case samples basket of
        None \<Rightarrow> Inl TypeError
      | Some ss \<Rightarrow>
         (case features_samples p return_baskets loc ss of
            Inl e \<Rightarrow> Inl e
          | Inr (ss1, loc1, ids) \<Rightarrow>
             (case features_baskets p return_baskets loc1 rest of
                Inl e \<Rightarrow> Inl e
              | Inr (bs1, loc2, ids1) \<Rightarrow>
                  Inr (basket\<lparr>samples := Some ss1\<rparr> # bs1, loc2, ids \<union> ids1))))"

text \<open>
  \<^verbatim>\<open>_passages_to_paddle_features\<close> returns the baskets; the processor changes in its
  set of problematic ids only. (After an exception the model does not go on with the
  processor.)
\<close>

definition passages_to_paddle_features ::
  "squad_processor \<Rightarrow> qa_basket list \<Rightarrow> bool \<Rightarrow> error + qa_basket list \<times> squad_processor" where
  "passages_to_paddle_features p bs return_baskets =
     bind_err (features_baskets p return_baskets None bs) (\<lambda>(bs1, loc, ids).
       Inr (bs1, p\<lparr>problematic_sample_ids := problematic_sample_ids p \<union> ids\<rparr>))"

text \<open>A row whose five arrays all have \<open>n\<close> entries.\<close>

definition arrays_have_length :: "int \<Rightarrow> qa_feature \<Rightarrow> bool" where
  "arrays_have_length n f =
     (int (length (ft_input_ids f)) = n \<and> int (length (ft_padding_mask f)) = n
      \<and> int (length (ft_segment_ids f)) = n \<and> int (length (ft_start_of_word f)) = n
      \<and> int (length (ft_span_mask f)) = n)"

text \<open>
  A sample fits when question and passage, joined with their special tokens, are no
  longer than \<^verbatim>\<open>max_seq_len\<close>.
\<close>

definition fits :: "squad_processor \<Rightarrow> qa_sample \<Rightarrow> bool" where
  "fits p s =
     (case tokenized s of
        None \<Rightarrow> True
      | Some tk \<Rightarrow>
          int (length (build_inputs_with_special_tokens (tokenizer p)
                 (tok_question_tokens tk) (tok_passage_tokens tk))) \<le> max_seq_len p)"

subsection \<open>Stage 6: the flat feature list\<close>

text \<open>
  \<^verbatim>\<open>features_flat.extend(sample.features)\<close> raises TypeError on \<^verbatim>\<open>None\<close>;
  \<^verbatim>\<open>baskets.remove(basket)\<close> deletes the first equal entry and raises ValueError when
  there is none.
\<close>

fun extend_features :: "'ft list \<Rightarrow> ('ct, 'tk, 'ft) sample list \<Rightarrow> error + 'ft list" where
  "extend_features features_flat [] = Inr features_flat"
| "extend_features features_flat (s # ss) =
     (case features s of
        None \<Rightarrow> Inl TypeError
      | Some fs \<Rightarrow> extend_features (features_flat @ fs) ss)"

definition py_remove :: "'a list \<Rightarrow> 'a \<Rightarrow> error + 'a list" where
  "py_remove xs x = (if x \<in> set xs then Inr (remove1 x xs) else Inl ValueError)"

fun remove_baskets :: "'a list \<Rightarrow> 'a list \<Rightarrow> error + 'a list" where
  "remove_baskets bs [] = Inr bs"
| "remove_baskets bs (basket # rest) =
     (case py_remove bs basket of Inl e \<Rightarrow> Inl e | Inr bs1 \<Rightarrow> remove_baskets bs1 rest)"

text \<open>
  The first loop of \<^verbatim>\<open>_create_dataset\<close>: the rows of the complete baskets are appended
  to \<^verbatim>\<open>features_flat\<close>, the other baskets to \<^verbatim>\<open>basket_to_remove\<close>.
\<close>

fun flatten_baskets ::
  "'ft list \<Rightarrow> ('i, 'raw, 'ct, 'tk, 'ft) sample_basket list \<Rightarrow>
   ('i, 'raw, 'ct, 'tk, 'ft) sample_basket list \<Rightarrow>
   error + 'ft list \<times> ('i, 'raw, 'ct, 'tk, 'ft) sample_basket list" where
  "flatten_baskets features_flat basket_to_remove [] = Inr (features_flat, basket_to_remove)"
| "flatten_baskets features_flat basket_to_remove (basket # rest) =
     (if check_sample_features basket then
        (case samples basket of
           None \<Rightarrow> Inl TypeError
         | Some ss \<Rightarrow>
            (case extend_features features_flat ss of
               Inl e \<Rightarrow> Inl e
             | Inr ff \<Rightarrow> flatten_baskets ff basket_to_remove rest))
      else flatten_baskets features_flat (basket_to_remove @ [basket]) rest)"

definition create_dataset ::
  "'ds qa_env \<Rightarrow> qa_basket list \<Rightarrow> error + 'ds \<times> string list \<times> qa_basket list" where
  "create_dataset env bs =
     bind_err (flatten_baskets [] [] bs) (\<lambda>(features_flat, basket_to_remove).
     bind_err (remove_baskets bs basket_to_remove) (\<lambda>bs1.
     bind_err (convert_features_to_dataset env features_flat) (\<lambda>(dataset, tensor_names).
       Inr (dataset, tensor_names, bs1))))"

text \<open>The rows that the samples of a basket carry, in the order of the samples.\<close>

definition basket_rows :: "('i, 'raw, 'ct, 'tk, 'ft) sample_basket \<Rightarrow> 'ft list" where
  "basket_rows basket =
     concat (map (\<lambda>s. case features s of None \<Rightarrow> [] | Some fs \<Rightarrow> fs)
               (case samples basket of None \<Rightarrow> [] | Some ss \<Rightarrow> ss))"

subsection \<open>The pipeline\<close>

text \<open>
  \<^verbatim>\<open>_log_samples\<close> shows randomly chosen samples of \<^verbatim>\<open>self.baskets\<close> and returns
  nothing. \<open>rnd k\<close> is the \<open>k\<close>-th number drawn; \<^verbatim>\<open>random.choice\<close> raises TypeError on
  \<^verbatim>\<open>None\<close> and IndexError on an empty list.
\<close>

fun log_samples_loop :: "(nat \<Rightarrow> nat) \<Rightarrow> nat \<Rightarrow> nat \<Rightarrow> qa_basket list \<Rightarrow> error + unit" where
  "log_samples_loop rnd k 0 bs = Inr ()"
| "log_samples_loop rnd k (Suc n) bs =
     (case samples (bs ! (rnd k mod length bs)) of
        None \<Rightarrow> Inl TypeError
      | Some ss \<Rightarrow>
          if ss = [] then Inl IndexError else log_samples_loop rnd (k + 2) n bs)"

definition log_samples :: "(nat \<Rightarrow> nat) \<Rightarrow> int \<Rightarrow> qa_basket list \<Rightarrow> error + unit" where
  "log_samples rnd n_samples bs =
     (if length bs = 0 then Inr () else log_samples_loop rnd 0 (nat n_samples) bs)"

record 'ds qa_result =
  res_dataset :: 'ds
  res_tensor_names :: "string list"
  res_problematic_sample_ids :: "string set"
  res_baskets :: "qa_basket list option"

text \<open>
  \<^verbatim>\<open>dataset_from_dicts\<close>: the stages in their order. The answers are converted only when
  the baskets are not returned; the samples are logged when \<^verbatim>\<open>indices\<close> holds 0. The
  result comes with the processor, whose set of problematic ids has grown.
\<close>

definition dataset_from_dicts ::
  "squad_processor \<Rightarrow> 'ds qa_env \<Rightarrow> (nat \<Rightarrow> nat) \<Rightarrow> infer_dict list \<Rightarrow> int list option \<Rightarrow>
   bool \<Rightarrow> error + 'ds qa_result \<times> squad_processor" where
  "dataset_from_dicts p env rnd dicts indices return_baskets =
     bind_err (map_err (convert_qa_input_dict p) dicts) (\<lambda>pre_baskets.
     bind_err (tokenize_batch_question_answering env pre_baskets (tokenizer p) indices)
       (\<lambda>bs1.
     bind_err (if \<not> return_baskets
               then bind_err (convert_answers p env (split_docs_into_passages p env bs1))
                      (\<lambda>(bs, ws). Inr bs)
               else Inr (split_docs_into_passages p env bs1)) (\<lambda>bs3.
     bind_err (passages_to_paddle_features p bs3 return_baskets) (\<lambda>(bs4, p1).
     bind_err (create_dataset env bs4) (\<lambda>(dataset, tensor_names, bs5).
     bind_err (if truthy_list indices \<and> 0 \<in> set (the indices)
               then log_samples rnd 1 (baskets p1) else Inr ()) (\<lambda>_.
       Inr (\<lparr>res_dataset = dataset, res_tensor_names = tensor_names,
             res_problematic_sample_ids = problematic_sample_ids p1,
             res_baskets = (if return_baskets then Some bs5 else None)\<rparr>, p1)))))))"

section \<open>TextSimilarityProcessor\<close>

subsection \<open>Data of the retrieval pipeline\<close>

record passage =
  psg_title :: "string option"
  psg_text :: "string option"
  psg_label :: "string option"
  psg_external_id :: "string option"

record ts_raw =
  raw_query :: "string option"
  raw_passages :: "passage list option"

text \<open>A context handed to the passage tokenizer: a text, or a pair of title and text.\<close>

datatype ctx = CtxText string | CtxPair string string

text \<open>
  What a tokenizer call returns: \<^verbatim>\<open>"input_ids"\<close> and \<^verbatim>\<open>"token_type_ids"\<close>. The entries
  of the passage tokenizer's lists are whatever it produces for its argument, so their
  type is a parameter. A result without \<^verbatim>\<open>"input_ids"\<close> counts as a tokenizer
  exception (both are caught before anything is stored).
\<close>

record 'e encoding =
  enc_input_ids :: "'e list"
  enc_token_type_ids :: "'e list option"

record ts_clear_text =
  ct_query_text :: "string option"
  ct_passages :: "passage list option"

record 'pt ts_tokenized =
  tok_query_tokens :: "string list option"
  tok_passages_tokens :: "'pt list option"

record 'e ts_feature =
  ft_query_input_ids :: "int list option"
  ft_query_segment_ids :: "int list option"
  ft_passage_input_ids :: "'e list option"
  ft_passage_segment_ids :: "'e list option"

type_synonym ('e, 'pt) ts_sample = "(ts_clear_text, 'pt ts_tokenized, 'e ts_feature) sample"
type_synonym ('e, 'pt) ts_basket =
  "(int, ts_raw, ts_clear_text, 'pt ts_tokenized, 'e ts_feature) sample_basket"

text \<open>
  The processor with its two tokenizers. \<open>shuffle k\<close> is the permutation that the
  \<open>k\<close>-th call of \<^verbatim>\<open>random.shuffle\<close> applies.
\<close>

record ('e, 'pt) ts_processor =
  query_tokenizer :: "string \<Rightarrow> error + int encoding"
  query_convert_ids_to_tokens :: "int list \<Rightarrow> error + string list"
  passage_tokenizer :: "ctx \<Rightarrow> error + 'e encoding"
  passage_convert_ids_to_tokens :: "'e \<Rightarrow> error + 'pt"
  embed_title :: bool
  num_hard_negatives :: int
  num_positives :: int
  shuffle_negatives :: bool
  shuffle_positives :: bool
  shuffle :: "nat \<Rightarrow> passage list \<Rightarrow> passage list"

subsection \<open>Queries\<close>

text \<open>
  \<^verbatim>\<open>_normalize_question\<close>: \<^verbatim>\<open>question[-1]\<close> raises IndexError on the empty string;
  otherwise a final question mark is cut off with \<^verbatim>\<open>question[:-1]\<close>.
\<close>

definition normalize_question :: "string \<Rightarrow> error + string" where
  "normalize_question question =
     (if question = [] then Inl IndexError
      else if last question = CHR ''?'' then Inr (py_slice question None (Some (- 1)))
      else Inr question)"

definition fill_baskets :: "ts_raw list \<Rightarrow> int list option \<Rightarrow> ('e, 'pt) ts_basket list" where
  "fill_baskets dicts indices =
     map (\<lambda>(d, i). \<lparr>id_internal = i, id_external = None, raw = d, samples = None\<rparr>)
       (zip dicts (if truthy_list indices then the indices
                   else map int [0 ..< length dicts]))"

definition empty_ts_feature :: "'e ts_feature" where
  "empty_ts_feature =
     \<lparr>ft_query_input_ids = None, ft_query_segment_ids = None,
      ft_passage_input_ids = None, ft_passage_segment_ids = None\<rparr>"

definition query_sample ::
  "string option \<Rightarrow> string list option \<Rightarrow> 'e ts_feature list option \<Rightarrow> ('e, 'pt) ts_sample" where
  "query_sample query_text query_tokens fs =
     \<lparr>id_str = [],
      clear_text = \<lparr>ct_query_text = query_text, ct_passages = None\<rparr>,
      tokenized = Some \<lparr>tok_query_tokens = query_tokens, tok_passages_tokens = None\<rparr>,
      features = fs\<rparr>"

text \<open>
  The body of the loop of \<^verbatim>\<open>_convert_queries\<close> for one basket. \<open>None\<close> is the
  \<^verbatim>\<open>return None\<close> that leaves the function when the query has no tokens. Every
  exception inside the \<^verbatim>\<open>try\<close> sets \<^verbatim>\<open>features = None\<close>; what was stored in
  \<^verbatim>\<open>clear_text\<close> and \<^verbatim>\<open>tokenized\<close> before it stays.
\<close>

definition convert_query ::
  "('e, 'pt) ts_processor \<Rightarrow> ('e, 'pt) ts_basket \<Rightarrow> ('e, 'pt) ts_basket option" where
  "convert_query proc basket =
     (case raw_query (raw basket) of
        None \<Rightarrow> Some (basket\<lparr>samples := Some [query_sample None None (Some [empty_ts_feature])]\<rparr>)
      | Some q \<Rightarrow>
         (case bind_err (normalize_question q) (\<lambda>query.
               bind_err (query_tokenizer proc query) (\<lambda>query_inputs.
               bind_err (query_convert_ids_to_tokens proc (enc_input_ids query_inputs))
                 (\<lambda>tokenized_query. Inr (query, query_inputs, tokenized_query)))) of
            Inl e \<Rightarrow> Some (basket\<lparr>samples := Some [query_sample None None None]\<rparr>)
          | Inr (query, query_inputs, tokenized_query) \<Rightarrow>
              if length tokenized_query = 0 then None
              else
                (case enc_token_type_ids query_inputs of
                   None \<Rightarrow>
                     Some (basket\<lparr>samples :=
                       Some [query_sample (Some query) (Some tokenized_query) None]\<rparr>)
                 | Some tt \<Rightarrow>
                     Some (basket\<lparr>samples :=
                       Some [query_sample (Some query) (Some tokenized_query)
                         (Some [empty_ts_feature
                            \<lparr>ft_query_input_ids := Some (enc_input_ids query_inputs),
                             ft_query_segment_ids := Some tt\<rparr>])]\<rparr>))))"

text \<open>
  \<^verbatim>\<open>_convert_queries\<close>: the \<^verbatim>\<open>return None\<close> is inside the loop over the baskets, so
  it ends the loop; the function then returns \<^verbatim>\<open>None\<close> instead of the baskets.
\<close>

fun convert_queries ::
  "('e, 'pt) ts_processor \<Rightarrow> ('e, 'pt) ts_basket list \<Rightarrow> ('e, 'pt) ts_basket list option" where
  "convert_queries proc [] = Some []"
| "convert_queries proc (basket # rest) =
     (case convert_query proc basket of
        None \<Rightarrow> None
      | Some b1 \<Rightarrow>
          (case convert_queries proc rest of None \<Rightarrow> None | Some bs1 \<Rightarrow> Some (b1 # bs1)))"

subsection \<open>Contexts\<close>

text \<open>
  \<^verbatim>\<open>_combine_title_context\<close> pairs titles and texts; a missing title becomes the empty
  string.
\<close>

definition combine_title_context :: "string option list \<Rightarrow> string list \<Rightarrow> ctx list" where
  "combine_title_context titles texts =
     map (\<lambda>(title, c). CtxPair (case title of None \<Rightarrow> [] | Some t \<Rightarrow> t) c) (zip titles texts)"

text \<open>\<^verbatim>\<open>x["label"] == v\<close> and \<^verbatim>\<open>passage["text"]\<close>: KeyError when the key is missing.\<close>

definition has_label :: "string \<Rightarrow> passage \<Rightarrow> error + bool" where
  "has_label v x = (case psg_label x of None \<Rightarrow> Inl KeyError | Some l \<Rightarrow> Inr (l = v))"

fun filter_label :: "string \<Rightarrow> passage list \<Rightarrow> error + passage list" where
  "filter_label v [] = Inr []"
| "filter_label v (x # xs) =
     (case has_label v x of
        Inl e \<Rightarrow> Inl e
      | Inr keep \<Rightarrow>
          (case filter_label v xs of
             Inl e \<Rightarrow> Inl e
           | Inr ys \<Rightarrow> Inr (if keep then x # ys else ys)))"

definition passage_text :: "passage \<Rightarrow> error + string" where
  "passage_text x = (case psg_text x of None \<Rightarrow> Inl KeyError | Some t \<Rightarrow> Inr t)"

text \<open>
  The passages chosen for a basket: the positive ones and the hard negative ones, each
  group shuffled when its flag is set (\<open>k\<close> counts the calls of \<^verbatim>\<open>random.shuffle\<close> so
  far) and cut to its number.
\<close>

definition select_contexts ::
  "('e, 'pt) ts_processor \<Rightarrow> nat \<Rightarrow> passage list \<Rightarrow> error + passage list \<times> passage list" where
  "select_contexts proc k ps =
     bind_err (filter_label ''positive'' ps) (\<lambda>pos.
     bind_err (filter_label ''hard_negative'' ps) (\<lambda>neg.
       Inr (py_slice (if shuffle_positives proc then shuffle proc k pos else pos)
              None (Some (num_positives proc)),
            py_slice (if shuffle_negatives proc
                      then shuffle proc (if shuffle_positives proc then Suc k else k) neg
                      else neg)
              None (Some (num_hard_negatives proc)))))"

definition shuffle_calls :: "('e, 'pt) ts_processor \<Rightarrow> nat" where
  "shuffle_calls proc =
     (if shuffle_positives proc then 1 else 0) + (if shuffle_negatives proc then 1 else 0)"

text \<open>
  \<^verbatim>\<open>all_ctx\<close>: the chosen contexts, with their titles when \<^verbatim>\<open>embed_title\<close> is set,
  filled with pairs of empty strings up to \<^verbatim>\<open>num_positives + num_hard_negatives\<close> entries.
\<close>

definition all_ctx ::
  "('e, 'pt) ts_processor \<Rightarrow> passage list \<Rightarrow> passage list \<Rightarrow> error + ctx list" where
  "all_ctx proc positive_context hard_negative_context =
     (let positive_ctx_titles = map psg_title positive_context in
      bind_err (map_err passage_text positive_context) (\<lambda>positive_ctx_texts.
        let hard_negative_ctx_titles = map psg_title hard_negative_context in
        bind_err (map_err passage_text hard_negative_context) (\<lambda>hard_negative_ctx_texts.
          let ctxs =
                (if embed_title proc then
                   combine_title_context positive_ctx_titles positive_ctx_texts
                   @ combine_title_context hard_negative_ctx_titles hard_negative_ctx_texts
                 else map CtxText positive_ctx_texts @ map CtxText hard_negative_ctx_texts)
          in Inr (ctxs @ py_repeat (CtxPair [] [])
                    ((num_positives proc + num_hard_negatives proc) - int (length ctxs))))))"

text \<open>
  What the \<^verbatim>\<open>try\<close> block computes before it touches the sample: the chosen passages,
  the encoding of \<^verbatim>\<open>all_ctx[0]\<close> (IndexError when the list is empty) and the tokens of
  its input ids. The tokenizer is called on the first context only.
\<close>

definition tokenize_contexts ::
  "('e, 'pt) ts_processor \<Rightarrow> nat \<Rightarrow> passage list \<Rightarrow>
   error + passage list \<times> 'e encoding \<times> 'pt list" where
  "tokenize_contexts proc k ps =
     bind_err (select_contexts proc k ps) (\<lambda>(positive_context, hard_negative_context).
     bind_err (all_ctx proc positive_context hard_negative_context) (\<lambda>ctxs.
     bind_err (case ctxs of [] \<Rightarrow> Inl IndexError | c # _ \<Rightarrow> passage_tokenizer proc c)
       (\<lambda>ctx_inputs.
     bind_err (map_err (passage_convert_ids_to_tokens proc) (enc_input_ids ctx_inputs))
       (\<lambda>tokenized_passage.
       Inr (positive_context @ hard_negative_context, ctx_inputs, tokenized_passage)))))"

text \<open>
  The four assignments into \<^verbatim>\<open>basket.samples[0]\<close>, in their order. Each can raise; the
  sample keeps what was stored before the exception, so the result is the sample as it
  is when the \<^verbatim>\<open>try\<close> block ends and the exception, if any.
\<close>

definition store_contexts ::
  "('e, 'pt) ts_sample \<Rightarrow> passage list \<Rightarrow> 'e encoding \<Rightarrow> 'pt list \<Rightarrow>
   ('e, 'pt) ts_sample \<times> error option" where
  "store_contexts s chosen ctx_inputs tokenized_passage =
     (let s1 = s\<lparr>clear_text := (clear_text s)\<lparr>ct_passages := Some chosen\<rparr>\<rparr>
      in case tokenized s1 of
           None \<Rightarrow> (s1, Some TypeError)
         | Some tk \<Rightarrow>
            (let s2 = s1\<lparr>tokenized := Some (tk\<lparr>tok_passages_tokens := Some tokenized_passage\<rparr>)\<rparr>
             in case features s2 of
                  None \<Rightarrow> (s2, Some TypeError)
                | Some [] \<Rightarrow> (s2, Some IndexError)
                | Some (f # fs) \<Rightarrow>
                   (let s3 = s2\<lparr>features :=
                               Some (f\<lparr>ft_passage_input_ids :=
                                         Some (enc_input_ids ctx_inputs)\<rparr> # fs)\<rparr>
                    in case enc_token_type_ids ctx_inputs of
                         None \<Rightarrow> (s3, Some KeyError)
                       | Some tt \<Rightarrow>
                           (s3\<lparr>features :=
                               Some (f\<lparr>ft_passage_input_ids := Some (enc_input_ids ctx_inputs),
                                       ft_passage_segment_ids := Some tt\<rparr> # fs)\<rparr>,
                            None))))"

text \<open>
  One basket of \<^verbatim>\<open>_convert_contexts\<close>. Without \<^verbatim>\<open>"passages"\<close> nothing happens. An
  exception inside the \<^verbatim>\<open>try\<close> sets the features of \<^verbatim>\<open>basket.samples[0]\<close> to \<^verbatim>\<open>None\<close>;
  that assignment stands in the handler and raises itself when there is no such sample.
\<close>

definition convert_context ::
  "('e, 'pt) ts_processor \<Rightarrow> nat \<Rightarrow> ('e, 'pt) ts_basket \<Rightarrow> error + ('e, 'pt) ts_basket" where
  "convert_context proc k basket =
     (case raw_passages (raw basket) of
        None \<Rightarrow> Inr basket
      | Some ps \<Rightarrow>
         (case samples basket of
            None \<Rightarrow> Inl TypeError
          | Some [] \<Rightarrow> Inl IndexError
          | Some (s # ss) \<Rightarrow>
             (case tokenize_contexts proc k ps of
                Inl e \<Rightarrow> Inr (basket\<lparr>samples := Some (s\<lparr>features := None\<rparr> # ss)\<rparr>)
              | Inr (chosen, ctx_inputs, tokenized_passage) \<Rightarrow>
                 (case store_contexts s chosen ctx_inputs tokenized_passage of
                    (s1, Some e) \<Rightarrow> Inr (basket\<lparr>samples := Some (s1\<lparr>features := None\<rparr> # ss)\<rparr>)
                  | (s1, None) \<Rightarrow> Inr (basket\<lparr>samples := Some (s1 # ss)\<rparr>)))))"

fun convert_contexts_from ::
  "('e, 'pt) ts_processor \<Rightarrow> nat \<Rightarrow> ('e, 'pt) ts_basket list \<Rightarrow>
   error + ('e, 'pt) ts_basket list" where
  "convert_contexts_from proc k [] = Inr []"
| "convert_contexts_from proc k (basket # rest) =
     (case convert_context proc k basket of
        Inl e \<Rightarrow> Inl e
      | Inr b1 \<Rightarrow>
          (case convert_contexts_from proc
                  (if raw_passages (raw basket) = None then k else k + shuffle_calls proc)
                  rest of
             Inl e \<Rightarrow> Inl e
           | Inr bs1 \<Rightarrow> Inr (b1 # bs1)))"

text \<open>
  \<^verbatim>\<open>_convert_contexts\<close> iterates over its argument: the \<^verbatim>\<open>None\<close> that
  \<^verbatim>\<open>_convert_queries\<close> can return raises TypeError.
\<close>

definition convert_contexts ::
  "('e, 'pt) ts_processor \<Rightarrow> ('e, 'pt) ts_basket list option \<Rightarrow>
   error + ('e, 'pt) ts_basket list" where
  "convert_contexts proc bs_opt =
     (case bs_opt of None \<Rightarrow> Inl TypeError | Some bs \<Rightarrow> convert_contexts_from proc 0 bs)"

subsection \<open>The retrieval pipeline\<close>

record ('ds, 'e, 'pt) ts_result =
  tres_dataset :: 'ds
  tres_tensor_names :: "string list"
  tres_problematic_ids :: "int set"
  tres_baskets :: "('e, 'pt) ts_basket list option"

definition ts_create_dataset ::
  "('e ts_feature list \<Rightarrow> error + 'ds \<times> string list) \<Rightarrow> ('e, 'pt) ts_basket list \<Rightarrow>
   error + 'ds \<times> string list \<times> int set \<times> ('e, 'pt) ts_basket list" where
  "ts_create_dataset to_dataset bs =
     bind_err (flatten_baskets [] [] bs) (\<lambda>(features_flat, basket_to_remove).
     bind_err (remove_baskets bs basket_to_remove) (\<lambda>bs1.
     bind_err (to_dataset features_flat) (\<lambda>(dataset, tensor_names).
       Inr (dataset, tensor_names, set (map id_internal basket_to_remove), bs1))))"

definition ts_dataset_from_dicts ::
  "('e, 'pt) ts_processor \<Rightarrow> ('e ts_feature list \<Rightarrow> error + 'ds \<times> string list) \<Rightarrow>
   ts_raw list \<Rightarrow> int list option \<Rightarrow> bool \<Rightarrow> error + ('ds, 'e, 'pt) ts_result" where
  "ts_dataset_from_dicts proc to_dataset dicts indices return_baskets =
     bind_err (convert_contexts proc (convert_queries proc (fill_baskets dicts indices)))
       (\<lambda>bs.
     bind_err (ts_create_dataset to_dataset bs) (\<lambda>(dataset, tensor_names, problematic_ids, bs1).
       Inr \<lparr>tres_dataset = dataset, tres_tensor_names = tensor_names,
            tres_problematic_ids = problematic_ids,
            tres_baskets = (if return_baskets then Some bs1 else None)\<rparr>))"

section \<open>Example collaborators and inputs\<close>

text \<open>
  A tokenizer with the conventions of BERT: \<^verbatim>\<open>[CLS] question [SEP] passage [SEP]\<close> with
  the ids 101 and 102, segment 0 up to the first separator and 1 after it, three special
  tokens for a pair, pad id 0.
\<close>

definition bert_like :: tokenizer where
  "bert_like =
     \<lparr>build_inputs_with_special_tokens = (\<lambda>q t. [Id 101] @ q @ [Id 102] @ t @ [Id 102]),
      create_token_type_ids_from_sequences =
        (\<lambda>q t. replicate (length q + 2) 0 @ replicate (length t + 1) 1),
      num_special_tokens_to_add = (\<lambda>pair. if pair then 3 else 2),
      pad_token_id = Id 0\<rparr>"

text \<open>
  Modelled from the spec: \<^verbatim>\<open>offset_to_token_idx_vecorized\<close> is not among the sources; the
  spec gives its contract, "maps a character position to its containing token index".
  With \<open>offsets\<close> the start positions of the tokens in ascending order, that is the
  index of the last token that starts at or before the position.
\<close>

definition containing_token_idx :: "int list \<Rightarrow> int \<Rightarrow> error + int" where
  "containing_token_idx offsets ch_idx = Inr (int (length (filter (\<lambda>off. off \<le> ch_idx) offsets)) - 1)"

text \<open>
  An environment for running single stages: the offset utility above, no batch tokenizer
  and no passage splitter (they raise), and a sink that hands the rows back as the
  dataset.
\<close>

definition example_env :: "qa_feature list qa_env" where
  "example_env =
     \<lparr>tokenize_batch_question_answering = (\<lambda>pre tk indices. Inl External),
      get_passage_offsets = (\<lambda>offsets stride budget text. Inl External),
      offset_to_token_idx_vecorized = containing_token_idx,
      convert_features_to_dataset = (\<lambda>rows. Inr (rows, []))\<rparr>"

text \<open>The processor that \<^verbatim>\<open>SquadProcessor(bert_like, max_seq_len, None)\<close> builds.\<close>

definition example_processor :: "int \<Rightarrow> int \<Rightarrow> int \<Rightarrow> int \<Rightarrow> squad_processor" where
  "example_processor max_seq_len_arg doc_stride_arg max_query_length_arg max_answers_arg =
     \<lparr>tokenizer = bert_like, max_seq_len = max_seq_len_arg, doc_stride = doc_stride_arg,
      max_query_length = max_query_length_arg, max_answers = max_answers_arg,
      sp_toks_start = 1, sp_toks_mid = 1, sp_toks_end = 1, tasks = Map.empty,
      baskets = [], problematic_sample_ids = {}\<rparr>"

definition paris_dict :: infer_dict where
  "paris_dict =
     \<lparr>in_context = None, in_qas = None,
      in_text = Some ''Paris is the capital of France.'',
      in_questions = Some [''What is the capital of France?''],
      in_id = Some ''q1''\<rparr>"

text \<open>Baskets and samples that carry nothing but an id and their features.\<close>

definition plain_raw :: qa_raw where
  "plain_raw =
     \<lparr>raw_document_text = [], raw_document_tokens = [], raw_document_offsets = [],
      raw_document_start_of_word = [], raw_question_text = [], raw_question_tokens = [],
      raw_question_offsets = [], raw_question_start_of_word = [], raw_answers = []\<rparr>"

definition plain_row :: "int \<Rightarrow> qa_feature" where
  "plain_row k =
     \<lparr>ft_input_ids = [Id k], ft_padding_mask = [1], ft_segment_ids = [0],
      ft_passage_start_t = 0, ft_start_of_word = [0], ft_labels = [], ft_id = [k, 0, 0],
      ft_seq_2_start_t = 0, ft_span_mask = [1]\<rparr>"

definition plain_sample :: "string \<Rightarrow> qa_feature list option \<Rightarrow> qa_sample" where
  "plain_sample i fs =
     \<lparr>id_str = i,
      clear_text = \<lparr>ct_passage_text = [], ct_question_text = [], ct_passage_id = 0\<rparr>,
      tokenized = None, features = fs\<rparr>"

definition plain_basket :: "string \<Rightarrow> qa_sample list option \<Rightarrow> qa_basket" where
  "plain_basket i ss = \<lparr>id_internal = i, id_external = None, raw = plain_raw, samples = ss\<rparr>"

text \<open>
  A passage of three tokens for a question of two, with the labels of one answer, and
  the row it gets when \<^verbatim>\<open>max_seq_len\<close> is 10.
\<close>

definition tiny_tokenized :: qa_tokenized where
  "tiny_tokenized =
     \<lparr>tok_passage_start_t = 0, tok_passage_start_c = 0,
      tok_passage_tokens = [Id 11, Id 12, Id 13], tok_passage_start_of_word = [1, 1, 0],
      tok_question_tokens = [Id 7, Id 8], tok_question_offsets = [0, 5],
      tok_question_start_of_word = [1, 1], tok_labels = Some [(4, 5), (- 1, - 1)]\<rparr>"

definition tiny_sample :: "qa_feature list option \<Rightarrow> qa_sample" where
  "tiny_sample fs =
     \<lparr>id_str = ''0-0-0'',
      clear_text = \<lparr>ct_passage_text = ''ab cd'', ct_question_text = ''who is'', ct_passage_id = 0\<rparr>,
      tokenized = Some tiny_tokenized, features = fs\<rparr>"

definition tiny_row :: qa_feature where
  "tiny_row =
     \<lparr>ft_input_ids = [Id 101, Id 7, Id 8, Id 102, Id 11, Id 12, Id 13, Id 102, Id 0, Id 0],
      ft_padding_mask = [1, 1, 1, 1, 1, 1, 1, 1, 0, 0],
      ft_segment_ids = [0, 0, 0, 0, 1, 1, 1, 1, 0, 0],
      ft_passage_start_t = 0,
      ft_start_of_word = [0, 1, 1, 0, 1, 1, 0, 0, 0, 0],
      ft_labels = [(4, 5), (- 1, - 1)],
      ft_id = [0, 0, 0],
      ft_seq_2_start_t = 4,
      ft_span_mask = [1, 0, 0, 0, 1, 1, 1, 0, 0, 0]\<rparr>"

text \<open>
  The document \<^verbatim>\<open>"a b c d"\<close>: four tokens that start at the characters 0, 2, 4 and 6,
  a question of one token, samples whose passage starts at a given token, and a
  basket of such samples.
\<close>

definition abcd_raw :: "answer list \<Rightarrow> qa_raw" where
  "abcd_raw as =
     \<lparr>raw_document_text = ''a b c d'',
      raw_document_tokens = [Id 11, Id 12, Id 13, Id 14],
      raw_document_offsets = [0, 2, 4, 6],
      raw_document_start_of_word = [1, 1, 1, 1],
      raw_question_text = ''q'', raw_question_tokens = [Id 7],
      raw_question_offsets = [0], raw_question_start_of_word = [1],
      raw_answers = as\<rparr>"

definition abcd_tokenized :: "int \<Rightarrow> token list \<Rightarrow> label_idxs option \<Rightarrow> qa_tokenized" where
  "abcd_tokenized start passage labels =
     \<lparr>tok_passage_start_t = start, tok_passage_start_c = 2 * start,
      tok_passage_tokens = passage, tok_passage_start_of_word = map (\<lambda>t. 1) passage,
      tok_question_tokens = [Id 7], tok_question_offsets = [0],
      tok_question_start_of_word = [1], tok_labels = labels\<rparr>"

definition abcd_sample ::
  "string \<Rightarrow> int \<Rightarrow> token list \<Rightarrow> label_idxs option \<Rightarrow> qa_feature list option \<Rightarrow> qa_sample" where
  "abcd_sample i start passage labels fs =
     \<lparr>id_str = i,
      clear_text = \<lparr>ct_passage_text = ''a b c d'', ct_question_text = ''q'', ct_passage_id = 0\<rparr>,
      tokenized = Some (abcd_tokenized start passage labels),
      features = fs\<rparr>"

definition abcd_basket :: "answer list \<Rightarrow> qa_sample list option \<Rightarrow> qa_basket" where
  "abcd_basket as ss =
     \<lparr>id_internal = ''0-0'', id_external = None, raw = abcd_raw as, samples = ss\<rparr>"

text \<open>
  The row of a passage of the first two tokens when \<^verbatim>\<open>max_seq_len\<close> is 6 and the labels
  are \<open>(4, 5)\<close>: position 5 is the closing special token.
\<close>

definition straddle_row :: qa_feature where
  "straddle_row =
     \<lparr>ft_input_ids = [Id 101, Id 7, Id 102, Id 11, Id 12, Id 102],
      ft_padding_mask = [1, 1, 1, 1, 1, 1],
      ft_segment_ids = [0, 0, 0, 1, 1, 1],
      ft_passage_start_t = 0,
      ft_start_of_word = [0, 1, 0, 1, 1, 0],
      ft_labels = [(4, 5), (- 1, - 1)],
      ft_id = [0, 0, 0],
      ft_seq_2_start_t = 3,
      ft_span_mask = [1, 0, 0, 1, 1, 0]\<rparr>"

text \<open>
  Tokenizers for the retrieval pipeline that make one token of every character, its code
  point as the id, and add no special tokens; a pair of title and text is encoded as
  the title followed by the text.
\<close>

definition char_ids :: "string \<Rightarrow> int list" where
  "char_ids s = map (\<lambda>c. int (of_char c)) s"

definition char_processor :: "(int, string) ts_processor" where
  "char_processor =
     \<lparr>query_tokenizer =
        (\<lambda>q. Inr \<lparr>enc_input_ids = char_ids q, enc_token_type_ids = Some (map (\<lambda>c. 0) q)\<rparr>),
      query_convert_ids_to_tokens = (\<lambda>ids. Inr (map (\<lambda>i. [char_of (nat i)]) ids)),
      passage_tokenizer =
        (\<lambda>c. case c of
           CtxText t \<Rightarrow> Inr \<lparr>enc_input_ids = char_ids t, enc_token_type_ids = Some (map (\<lambda>c. 0) t)\<rparr>
         | CtxPair ti t \<Rightarrow>
             Inr \<lparr>enc_input_ids = char_ids ti @ char_ids t,
                  enc_token_type_ids = Some (map (\<lambda>c. 0) ti @ map (\<lambda>c. 1) t)\<rparr>),
      passage_convert_ids_to_tokens = (\<lambda>i. Inr [char_of (nat i)]),
      embed_title = False, num_hard_negatives = 2, num_positives = 1,
      shuffle_negatives = False, shuffle_positives = False,
      shuffle = (\<lambda>k ps. ps)\<rparr>"

definition psg :: "string \<Rightarrow> string \<Rightarrow> passage" where
  "psg l t = \<lparr>psg_title = None, psg_text = Some t, psg_label = Some l, psg_external_id = None\<rparr>"

text \<open>A query with three positive and five hard negative passages.\<close>

definition retrieval_dict :: ts_raw where
  "retrieval_dict =
     \<lparr>raw_query = Some ''Who?'',
      raw_passages = Some
        [psg ''positive'' ''p1'', psg ''hard_negative'' ''n1'', psg ''positive'' ''p2'',
         psg ''hard_negative'' ''n2'', psg ''hard_negative'' ''n3'', psg ''positive'' ''p3'',
         psg ''hard_negative'' ''n4'', psg ''hard_negative'' ''n5'']\<rparr>"

text \<open>A query that is a question mark only: nothing is left of it to tokenize.\<close>

definition question_mark_dict :: ts_raw where
  "question_mark_dict = \<lparr>raw_query = Some ''?'', raw_passages = None\<rparr>"

definition rows_sink :: "'f list \<Rightarrow> error + 'f list \<times> string list" where
  "rows_sink rows = Inr (rows, [])"

text \<open>
  Collaborators for a run of the whole QA pipeline. The batch tokenizer knows one
  document, \<^verbatim>\<open>"a b c d"\<close>: it makes a basket of it for every dictionary, with the answers
  of the first question of the dictionary and the id from \<^verbatim>\<open>indices\<close>. The passage
  splitter returns the whole document as one passage.
\<close>

definition pipeline_env :: "qa_feature list qa_env" where
  "pipeline_env =
     \<lparr>tokenize_batch_question_answering =
        (\<lambda>pre tk indices.
           Inr (map (\<lambda>(k, d).
                  \<lparr>id_internal = py_str_int k @ ''-0'', id_external = None,
                   raw = abcd_raw (case in_qas d of Some (q # qs) \<Rightarrow> qa_answers q | _ \<Rightarrow> []),
                   samples = None\<rparr>)
                (zip (case indices of Some ks \<Rightarrow> ks | None \<Rightarrow> map int [0 ..< length pre]) pre))),
      get_passage_offsets =
        (\<lambda>offsets stride budget text.
           Inr [\<lparr>span_passage_id = 0, span_passage_start_t = 0,
                 span_passage_end_t = int (length offsets), span_passage_start_c = 0,
                 span_passage_end_c = int (length text)\<rparr>]),
      offset_to_token_idx_vecorized = containing_token_idx,
      convert_features_to_dataset = (\<lambda>rows. Inr (rows, []))\<rparr>"

definition abcd_dict :: "answer list \<Rightarrow> infer_dict" where
  "abcd_dict as =
     \<lparr>in_context = Some ''a b c d'',
      in_qas = Some [\<lparr>qa_question = ''q'', qa_id = None, qa_answers = as, qa_answer_type = None\<rparr>],
      in_text = None, in_questions = None, in_id = None\<rparr>"

definition abcd_row :: qa_feature where
  "abcd_row =
     \<lparr>ft_input_ids = [Id 101, Id 7, Id 102, Id 11, Id 12, Id 13, Id 14, Id 102, Id 0, Id 0],
      ft_padding_mask = [1, 1, 1, 1, 1, 1, 1, 1, 0, 0],
      ft_segment_ids = [0, 0, 0, 1, 1, 1, 1, 1, 0, 0],
      ft_passage_start_t = 0,
      ft_start_of_word = [0, 1, 0, 1, 1, 1, 1, 0, 0, 0],
      ft_labels = [(4, 4), (- 1, - 1)],
      ft_id = [0, 0, 0],
      ft_seq_2_start_t = 3,
      ft_span_mask = [1, 0, 0, 1, 1, 1, 1, 0, 0, 0]\<rparr>"

section \<open>Properties of the built-ins\<close>

lemma py_slice_drop_last: "py_slice xs None (Some (- 1)) = butlast xs"
proof (cases "xs = []")
  case True
  then show ?thesis by (simp add: py_slice_def slice_bound_def)
next
  case False
  then have "nat (int (length xs) - 1) = length xs - 1" by simp
  with False show ?thesis
    by (simp add: py_slice_def slice_bound_def butlast_conv_take)
qed

section \<open>Query normalisation\<close>

text \<open>
  C10. \<^verbatim>\<open>_normalize_question\<close> returns a value exactly on the non-empty strings: a
  non-empty question comes back without its last character when that character is a
  question mark (one mark only: the rest, also a further question mark, stays) and
  unchanged otherwise; the empty string raises IndexError.
\<close>

theorem normalize_question_total_on_nonempty:
  "(question \<noteq> [] \<longrightarrow>
      normalize_question question =
        Inr (if last question = CHR ''?'' then butlast question else question))
   \<and> normalize_question [] = Inl IndexError"
  by (simp add: normalize_question_def py_slice_drop_last)

theorem normalize_question_total_on_nonempty_witness:
  "normalize_question ''What time is it?'' = Inr ''What time is it''
   \<and> normalize_question ''Hello'' = Inr ''Hello''
   \<and> normalize_question ''Why??'' = Inr ''Why?''
   \<and> normalize_question [] = Inl IndexError"
  using normalize_question_total_on_nonempty [of "''What time is it?''"]
        normalize_question_total_on_nonempty [of "''Hello''"]
        normalize_question_total_on_nonempty [of "''Why??''"]
  by simp

section \<open>Construction and input normalisation\<close>

lemma py_index_error: "py_index xs v = Inl e \<Longrightarrow> e = ValueError"
  by (induction xs arbitrary: e) (auto split: if_splits sum.splits)

lemma initialize_special_tokens_count_error:
  "initialize_special_tokens_count p = Inl e \<Longrightarrow> e = ValueError"
  by (auto simp: initialize_special_tokens_count_def bind_err_def Let_def
           split: sum.splits dest: py_index_error)

lemma add_task_error: "add_task n m ll lc ln tt tc ts = Inl e \<Longrightarrow> e = ValueError"
  by (auto simp: add_task_def Let_def split: option.splits)

lemma SquadProcessor_init_no_assertion:
  assumes "doc_stride_arg < max_seq_len_arg - max_query_length_arg"
  shows "SquadProcessor_init tk max_seq_len_arg ll m doc_stride_arg max_query_length_arg ma
           \<noteq> Inl AssertionError"
proof
  assume a: "SquadProcessor_init tk max_seq_len_arg ll m doc_stride_arg max_query_length_arg ma
               = Inl AssertionError"
  from a assms show False
    by (auto simp: SquadProcessor_init_def bind_err_def
             split: sum.splits if_splits
             dest: initialize_special_tokens_count_error add_task_error)
qed


text \<open>
  C6, as the claim states it, fails in its example: with \<^verbatim>\<open>max_seq_len = 384\<close> and
  \<^verbatim>\<open>max_query_length = 64\<close> the bound is 320, so \<^verbatim>\<open>doc_stride = 300\<close> passes the
  assertion and the processor is built.
\<close>

theorem doc_stride_300_is_accepted:
  "SquadProcessor_init bert_like 384 None (Some ''squad'') 300 64 6
     = Inr (example_processor 384 300 64 6)"
  by (simp add: SquadProcessor_init_def initialize_special_tokens_count_def bert_like_def
        bind_err_def truthy_str_def truthy_list_def example_processor_def)

text \<open>
  C6, amended. The constructor of \<^verbatim>\<open>SquadProcessor\<close> ends in the assertion error exactly
  when \<^verbatim>\<open>doc_stride >= max_seq_len - max_query_length\<close>, whatever the other arguments
  are, and \<^verbatim>\<open>convert_qa_input_dict\<close> repeats the same check on the processor it is
  called on. With \<^verbatim>\<open>max_seq_len = 384\<close> and \<^verbatim>\<open>max_query_length = 64\<close> the strides 128
  and 300 pass the check; a stride of 320 or more fails it.
\<close>

theorem doc_stride_checked_at_construction:
  "(SquadProcessor_init tk max_seq_len_arg ll m doc_stride_arg max_query_length_arg ma
      = Inl AssertionError)
     = (doc_stride_arg \<ge> max_seq_len_arg - max_query_length_arg)
   \<and> (convert_qa_input_dict p d = Inl AssertionError)
     = (doc_stride p \<ge> max_seq_len p - max_query_length p)
   \<and> SquadProcessor_init tk 384 ll m 128 64 ma \<noteq> Inl AssertionError
   \<and> SquadProcessor_init tk 384 ll m 300 64 ma \<noteq> Inl AssertionError
   \<and> (SquadProcessor_init tk 384 ll m doc_stride_arg 64 ma = Inl AssertionError)
     = (doc_stride_arg \<ge> 320)"
proof -
  have general: "(SquadProcessor_init tk msl ll m ds mql ma = Inl AssertionError)
        = (ds \<ge> msl - mql)" for msl ds mql
  proof (cases "ds < msl - mql")
    case True
    with SquadProcessor_init_no_assertion [OF True] show ?thesis by simp
  next
    case False
    then show ?thesis by (simp add: SquadProcessor_init_def)
  qed
  have again: "(convert_qa_input_dict p d = Inl AssertionError)
        = (doc_stride p \<ge> max_seq_len p - max_query_length p)"
    by (auto simp: convert_qa_input_dict_def Let_def split: option.splits)
  show ?thesis
    using general [of max_seq_len_arg doc_stride_arg max_query_length_arg]
          general [of 384 128 64] general [of 384 300 64] general [of 384 doc_stride_arg 64]
          again
    by simp
qed

theorem doc_stride_checked_at_construction_witness:
  "SquadProcessor_init bert_like 384 None (Some ''squad'') 128 64 6 \<noteq> Inl AssertionError
   \<and> SquadProcessor_init bert_like 384 None (Some ''squad'') 320 64 6 = Inl AssertionError
   \<and> SquadProcessor_init bert_like 384 None (Some ''squad'') 400 64 6 = Inl AssertionError
   \<and> convert_qa_input_dict (example_processor 384 320 64 6) paris_dict = Inl AssertionError"
proof -
  have "doc_stride (example_processor 384 320 64 6)
          \<ge> max_seq_len (example_processor 384 320 64 6)
            - max_query_length (example_processor 384 320 64 6)"
    by (simp add: example_processor_def)
  then show ?thesis
    using doc_stride_checked_at_construction
            [of bert_like 384 None "Some ''squad''" 400 64 6 "example_processor 384 320 64 6"
                paris_dict]
          doc_stride_checked_at_construction
            [of bert_like 384 None "Some ''squad''" 320 64 6 "example_processor 384 320 64 6"
                paris_dict]
    by simp
qed




section \<open>The flat feature list\<close>

lemma extend_features_complete:
  "list_all (\<lambda>s. features s \<noteq> None) ss \<Longrightarrow>
   extend_features ff ss =
     Inr (ff @ concat (map (\<lambda>s. case features s of None \<Rightarrow> [] | Some fs \<Rightarrow> fs) ss))"
  by (induction ss arbitrary: ff) auto

lemma flatten_baskets_eq:
  "flatten_baskets ff rm bs =
     Inr (ff @ concat (map basket_rows (filter check_sample_features bs)),
          rm @ filter (\<lambda>b. \<not> check_sample_features b) bs)"
proof (induction bs arbitrary: ff rm)
  case Nil
  then show ?case by simp
next
  case (Cons b bs)
  show ?case
  proof (cases "check_sample_features b")
    case True
    then obtain ss where ss: "samples b = Some ss" "list_all (\<lambda>s. features s \<noteq> None) ss"
      by (auto simp: check_sample_features_def split: option.splits if_splits)
    with True Cons show ?thesis
      by (simp add: extend_features_complete basket_rows_def)
  next
    case False
    with Cons show ?thesis by simp
  qed
qed

text \<open>
  Removing the incomplete baskets one by one, each at its first occurrence, leaves the
  complete ones in their order; no removal fails.
\<close>

lemma remove_baskets_filter:
  "\<forall>x\<in>set pre. P x \<Longrightarrow>
   remove_baskets (pre @ xs) (filter (\<lambda>b. \<not> P b) xs) = Inr (pre @ filter P xs)"
proof (induction xs arbitrary: pre)
  case Nil
  then show ?case by simp
next
  case (Cons x xs)
  show ?case
  proof (cases "P x")
    case True
    with Cons.prems have "\<forall>y\<in>set (pre @ [x]). P y" by simp
    from Cons.IH [OF this] True show ?thesis by simp
  next
    case False
    with Cons.prems have "x \<notin> set pre" by auto
    then have "remove1 x (pre @ x # xs) = pre @ xs"
      by (simp add: remove1_append)
    with False Cons.IH [OF Cons.prems] show ?thesis
      by (simp add: py_remove_def)
  qed
qed

lemma remove_incomplete_baskets:
  "remove_baskets bs (filter (\<lambda>b. \<not> check_sample_features b) bs)
     = Inr (filter check_sample_features bs)"
  using remove_baskets_filter [of "[]" check_sample_features bs] by simp

lemma check_sample_features_iff:
  "check_sample_features b =
     (\<exists>ss. samples b = Some ss \<and> ss \<noteq> [] \<and> (\<forall>s\<in>set ss. features s \<noteq> None))"
  by (auto simp: check_sample_features_def list_all_iff split: option.splits)

text \<open>
  C4. For every list of baskets, \<^verbatim>\<open>_create_dataset\<close> hands to the dataset sink exactly
  the rows of the complete baskets, basket by basket and sample by sample, and returns
  exactly the complete baskets; a basket is complete when it has a sample list that is
  not empty and all of whose samples have features. So no basket that holds a sample
  with \<^verbatim>\<open>features = None\<close> is kept, and no row of such a basket reaches the dataset.
\<close>

theorem create_dataset_keeps_complete_baskets:
  "create_dataset env bs =
     bind_err (convert_features_to_dataset env
                 (concat (map basket_rows (filter check_sample_features bs))))
       (\<lambda>(dataset, tensor_names).
          Inr (dataset, tensor_names, filter check_sample_features bs))
   \<and> (\<forall>b. check_sample_features b =
         (\<exists>ss. samples b = Some ss \<and> ss \<noteq> [] \<and> (\<forall>s\<in>set ss. features s \<noteq> None)))"
proof (intro conjI allI)
  show "create_dataset env bs =
     bind_err (convert_features_to_dataset env
                 (concat (map basket_rows (filter check_sample_features bs))))
       (\<lambda>(dataset, tensor_names).
          Inr (dataset, tensor_names, filter check_sample_features bs))"
    by (simp add: create_dataset_def flatten_baskets_eq remove_incomplete_baskets bind_err_def)
  show "check_sample_features b =
     (\<exists>ss. samples b = Some ss \<and> ss \<noteq> [] \<and> (\<forall>s\<in>set ss. features s \<noteq> None))" for b
    by (rule check_sample_features_iff)
qed

theorem create_dataset_keeps_complete_baskets_witness:
  "create_dataset example_env
     [plain_basket ''0-0'' (Some [plain_sample ''0-0-0'' (Some [plain_row 1]),
                                  plain_sample ''0-0-1'' (Some [plain_row 2])]),
      plain_basket ''1-0'' (Some [plain_sample ''1-0-0'' (Some [plain_row 3]),
                                  plain_sample ''1-0-1'' None]),
      plain_basket ''2-0'' (Some []),
      plain_basket ''3-0'' None]
   = Inr ([plain_row 1, plain_row 2], [],
          [plain_basket ''0-0'' (Some [plain_sample ''0-0-0'' (Some [plain_row 1]),
                                       plain_sample ''0-0-1'' (Some [plain_row 2])])])"
  using create_dataset_keeps_complete_baskets [of example_env
     "[plain_basket ''0-0'' (Some [plain_sample ''0-0-0'' (Some [plain_row 1]),
                                   plain_sample ''0-0-1'' (Some [plain_row 2])]),
       plain_basket ''1-0'' (Some [plain_sample ''1-0-0'' (Some [plain_row 3]),
                                   plain_sample ''1-0-1'' None]),
       plain_basket ''2-0'' (Some []),
       plain_basket ''3-0'' None]", THEN conjunct1]
  by (simp add: check_sample_features_def basket_rows_def plain_basket_def plain_sample_def
        example_env_def bind_err_def)

section \<open>Feature rows\<close>

lemma feature_arrays_input_ids:
  assumes "feature_arrays p l = (a, b, c, d, e)"
    and "int (length (build_inputs_with_special_tokens (tokenizer p)
                 (loc_question_tokens l) (loc_passage_tokens l))) \<le> max_seq_len p"
  shows "int (length a) = max_seq_len p"
  using assms by (auto simp: feature_arrays_def Let_def py_repeat_def)

text \<open>
  A sample that gets features has a tokenized dictionary, its features are one row made
  of the five arrays, and the arrays passed the length check.
\<close>

lemma sample_to_features_row:
  assumes run: "sample_to_features p rb l s = Inr (s1, bad)"
    and fs: "features s1 = Some fs"
  shows "\<exists>a b c d e f tk. feature_arrays p l = (a, b, c, d, e) \<and> fs = [f] \<and> tokenized s = Some tk
          \<and> ft_input_ids f = a \<and> ft_padding_mask f = b \<and> ft_segment_ids f = c
          \<and> ft_start_of_word f = d \<and> ft_span_mask f = e
          \<and> length a = length b \<and> length b = length c \<and> length c = length d
          \<and> length d = length e"
proof -
  obtain a b c d e where arr: "feature_arrays p l = (a, b, c, d, e)"
    by (cases "feature_arrays p l") auto
  from run fs show ?thesis
    unfolding sample_to_features_def arr
    by (auto simp: Let_def bind_err_def split: sum.splits if_splits option.splits)
qed

lemma sample_locals_tokens:
  "sample_locals loc s = Inr l \<Longrightarrow> tokenized s = Some tk \<Longrightarrow>
   loc_question_tokens l = tok_question_tokens tk \<and> loc_passage_tokens l = tok_passage_tokens tk"
  by (auto simp: sample_locals_def bind_err_def split: sum.splits)

lemma sample_rows_ok:
  assumes loc: "sample_locals loc s = Inr l"
    and run: "sample_to_features p rb l s = Inr (s1, bad)"
    and fs: "features s1 = Some fs"
    and fit: "fits p s"
  shows "\<forall>f\<in>set fs. arrays_have_length (max_seq_len p) f"
proof -
  from sample_to_features_row [OF run fs] obtain a b c d e f tk where
    r: "feature_arrays p l = (a, b, c, d, e)" "fs = [f]" "tokenized s = Some tk"
       "ft_input_ids f = a" "ft_padding_mask f = b" "ft_segment_ids f = c"
       "ft_start_of_word f = d" "ft_span_mask f = e"
       "length a = length b" "length b = length c" "length c = length d" "length d = length e"
    by blast
  from sample_locals_tokens [OF loc r(3)] fit r(3)
  have "int (length (build_inputs_with_special_tokens (tokenizer p)
                 (loc_question_tokens l) (loc_passage_tokens l))) \<le> max_seq_len p"
    by (simp add: fits_def)
  from feature_arrays_input_ids [OF r(1) this] r show ?thesis
    by (simp add: arrays_have_length_def)
qed

lemma features_samples_rows:
  assumes "features_samples p rb loc ss = Inr (ss1, loc1, ids)"
    and "\<forall>s\<in>set ss. fits p s"
  shows "\<forall>s1\<in>set ss1. \<forall>fs. features s1 = Some fs \<longrightarrow>
           (\<forall>f\<in>set fs. arrays_have_length (max_seq_len p) f)"
  using assms
proof (induction ss arbitrary: loc ss1 loc1 ids)
  case Nil
  then show ?case by simp
next
  case (Cons s ss)
  from Cons.prems(1) obtain l s1 bad rest loc' ids' where
    l: "sample_locals loc s = Inr l"
    and st: "sample_to_features p rb l s = Inr (s1, bad)"
    and rec: "features_samples p rb (Some l) ss = Inr (rest, loc', ids')"
    and out: "ss1 = s1 # rest"
    by (auto split: sum.splits)
  from Cons.prems(2) have fit: "fits p s" and fits: "\<forall>s\<in>set ss. fits p s" by simp_all
  from Cons.IH [OF rec fits] sample_rows_ok [OF l st _ fit] out
  show ?case by auto
qed

lemma features_baskets_rows:
  assumes "features_baskets p rb loc bs = Inr (bs1, loc1, ids)"
    and "\<forall>b\<in>set bs. \<forall>ss. samples b = Some ss \<longrightarrow> (\<forall>s\<in>set ss. fits p s)"
  shows "\<forall>b1\<in>set bs1. \<forall>ss1. samples b1 = Some ss1 \<longrightarrow>
           (\<forall>s1\<in>set ss1. \<forall>fs. features s1 = Some fs \<longrightarrow>
              (\<forall>f\<in>set fs. arrays_have_length (max_seq_len p) f))"
  using assms
proof (induction bs arbitrary: loc bs1 loc1 ids)
  case Nil
  then show ?case by simp
next
  case (Cons b bs)
  from Cons.prems(1) obtain ss ss1 loc' ids' rest loc'' ids'' where
    ss: "samples b = Some ss"
    and fsam: "features_samples p rb loc ss = Inr (ss1, loc', ids')"
    and rec: "features_baskets p rb loc' bs = Inr (rest, loc'', ids'')"
    and out: "bs1 = b\<lparr>samples := Some ss1\<rparr> # rest"
    by (auto split: sum.splits option.splits)
  from Cons.prems(2) ss have f1: "\<forall>s\<in>set ss. fits p s" by simp
  from Cons.prems(2) have f2: "\<forall>b\<in>set bs. \<forall>ss. samples b = Some ss \<longrightarrow> (\<forall>s\<in>set ss. fits p s)"
    by simp
  from Cons.IH [OF rec f2] features_samples_rows [OF fsam f1] out
  show ?case by auto
qed

text \<open>
  C1. Let \<^verbatim>\<open>_passages_to_paddle_features\<close> return, let the tokenizer add exactly
  \<^verbatim>\<open>num_special_tokens_to_add(pair=True)\<close> tokens when it joins two sequences, and let
  every passage be no longer than the budget \<^verbatim>\<open>max_seq_len\<close> minus the question minus
  the special tokens. Then in every row of every sample that has features the arrays
  \<^verbatim>\<open>input_ids\<close>, \<^verbatim>\<open>padding_mask\<close>, \<^verbatim>\<open>segment_ids\<close>, \<^verbatim>\<open>start_of_word\<close> and
  \<^verbatim>\<open>span_mask\<close> have exactly \<^verbatim>\<open>max_seq_len\<close> entries.
\<close>

theorem feature_arrays_have_max_seq_len:
  assumes run: "passages_to_paddle_features p bs return_baskets = Inr (bs', p')"
    and special:
      "\<And>q t. int (length (build_inputs_with_special_tokens (tokenizer p) q t))
               = int (length q) + int (length t) + num_special_tokens_to_add (tokenizer p) True"
    and budget:
      "\<And>b ss s tk. b \<in> set bs \<Longrightarrow> samples b = Some ss \<Longrightarrow> s \<in> set ss \<Longrightarrow>
         tokenized s = Some tk \<Longrightarrow>
         int (length (tok_passage_tokens tk))
           \<le> max_seq_len p - int (length (tok_question_tokens tk))
               - num_special_tokens_to_add (tokenizer p) True"
    and row: "b' \<in> set bs'" "samples b' = Some ss'" "s' \<in> set ss'"
      "features s' = Some fs" "f \<in> set fs"
  shows "int (length (ft_input_ids f)) = max_seq_len p
       \<and> int (length (ft_padding_mask f)) = max_seq_len p
       \<and> int (length (ft_segment_ids f)) = max_seq_len p
       \<and> int (length (ft_start_of_word f)) = max_seq_len p
       \<and> int (length (ft_span_mask f)) = max_seq_len p"
proof -
  have fit: "\<forall>b\<in>set bs. \<forall>ss. samples b = Some ss \<longrightarrow> (\<forall>s\<in>set ss. fits p s)"
  proof (intro ballI allI impI)
    fix b ss s
    assume b: "b \<in> set bs" "samples b = Some ss" "s \<in> set ss"
    show "fits p s"
    proof (cases "tokenized s")
      case None
      then show ?thesis by (simp add: fits_def)
    next
      case (Some tk)
      from budget [OF b Some] special [of "tok_question_tokens tk" "tok_passage_tokens tk"]
      show ?thesis by (simp add: fits_def Some)
    qed
  qed
  from run obtain loc ids where fb: "features_baskets p return_baskets None bs = Inr (bs', loc, ids)"
    by (auto simp: passages_to_paddle_features_def bind_err_def split: sum.splits)
  from features_baskets_rows [OF fb fit] row
  have "arrays_have_length (max_seq_len p) f" by blast
  then show ?thesis by (simp add: arrays_have_length_def)
qed

theorem feature_arrays_have_max_seq_len_witness:
  "passages_to_paddle_features (example_processor 10 2 3 2)
     [plain_basket ''0-0'' (Some [tiny_sample None])] False
     = Inr ([plain_basket ''0-0'' (Some [tiny_sample (Some [tiny_row])])],
            example_processor 10 2 3 2)
   \<and> length (ft_input_ids tiny_row) = 10 \<and> length (ft_padding_mask tiny_row) = 10
   \<and> length (ft_segment_ids tiny_row) = 10 \<and> length (ft_start_of_word tiny_row) = 10
   \<and> length (ft_span_mask tiny_row) = 10"
proof -
  have ids: "py_int ''0'' = Inr 0"
    by (simp add: py_int_def int_strip_def int_isspace_def digit_val_def)
  have run: "passages_to_paddle_features (example_processor 10 2 3 2)
     [plain_basket ''0-0'' (Some [tiny_sample None])] False
     = Inr ([plain_basket ''0-0'' (Some [tiny_sample (Some [tiny_row])])],
            example_processor 10 2 3 2)"
    by (simp add: passages_to_paddle_features_def plain_basket_def tiny_sample_def
          sample_locals_def ids sample_to_features_def feature_arrays_def label_check_def
          label_check2_def tiny_tokenized_def tiny_row_def example_processor_def
          bert_like_def py_repeat_def bind_err_def Let_def numeral_eq_Suc)
  have "int (length (ft_input_ids tiny_row)) = max_seq_len (example_processor 10 2 3 2)
       \<and> int (length (ft_padding_mask tiny_row)) = max_seq_len (example_processor 10 2 3 2)
       \<and> int (length (ft_segment_ids tiny_row)) = max_seq_len (example_processor 10 2 3 2)
       \<and> int (length (ft_start_of_word tiny_row)) = max_seq_len (example_processor 10 2 3 2)
       \<and> int (length (ft_span_mask tiny_row)) = max_seq_len (example_processor 10 2 3 2)"
  proof (rule feature_arrays_have_max_seq_len
           [where bs = "[plain_basket ''0-0'' (Some [tiny_sample None])]"
              and return_baskets = False
              and bs' = "[plain_basket ''0-0'' (Some [tiny_sample (Some [tiny_row])])]"
              and p' = "example_processor 10 2 3 2"
              and b' = "plain_basket ''0-0'' (Some [tiny_sample (Some [tiny_row])])"
              and ss' = "[tiny_sample (Some [tiny_row])]"
              and s' = "tiny_sample (Some [tiny_row])"
              and fs = "[tiny_row]"])
    show "passages_to_paddle_features (example_processor 10 2 3 2)
            [plain_basket ''0-0'' (Some [tiny_sample None])] False
          = Inr ([plain_basket ''0-0'' (Some [tiny_sample (Some [tiny_row])])],
                 example_processor 10 2 3 2)"
      by (rule run)
    show "int (length (build_inputs_with_special_tokens
                    (tokenizer (example_processor 10 2 3 2)) q t))
               = int (length q) + int (length t)
                 + num_special_tokens_to_add (tokenizer (example_processor 10 2 3 2)) True"
      for q t
      by (simp add: example_processor_def bert_like_def)
    show "int (length (tok_passage_tokens tk))
           \<le> max_seq_len (example_processor 10 2 3 2) - int (length (tok_question_tokens tk))
               - num_special_tokens_to_add (tokenizer (example_processor 10 2 3 2)) True"
      if "b \<in> set [plain_basket ''0-0'' (Some [tiny_sample None])]" "samples b = Some ss"
         "s \<in> set ss" "tokenized s = Some tk" for b ss s tk
      using that
      by (auto simp: plain_basket_def tiny_sample_def tiny_tokenized_def example_processor_def
            bert_like_def)
    show "plain_basket ''0-0'' (Some [tiny_sample (Some [tiny_row])])
            \<in> set [plain_basket ''0-0'' (Some [tiny_sample (Some [tiny_row])])]"
      by simp
    show "samples (plain_basket ''0-0'' (Some [tiny_sample (Some [tiny_row])]))
            = Some [tiny_sample (Some [tiny_row])]"
      by (simp add: plain_basket_def)
    show "tiny_sample (Some [tiny_row]) \<in> set [tiny_sample (Some [tiny_row])]"
      by simp
    show "features (tiny_sample (Some [tiny_row])) = Some [tiny_row]"
      by (simp add: tiny_sample_def)
    show "tiny_row \<in> set [tiny_row]"
      by simp
  qed
  with run show ?thesis by (simp add: example_processor_def)
qed

section \<open>Answers as token spans\<close>

lemma convert_answer_step:
  assumes "convert_answer p env r (Some tk) i a L = Inr (L', w)"
  shows "i < length L
       \<and> (case w of
            None \<Rightarrow> answer_passes p env r tk a (L' ! i) \<and> L' = L[i := L' ! i]
          | Some x \<Rightarrow> answer_fails env r tk a x \<and> L' = L[i := (- 100, - 100)])"
  using assms
  by (auto simp: convert_answer_def tok_span_def answer_passes_def answer_fails_def
                 bind_err_def set_row_def Let_def
           split: sum.splits option.splits if_splits)

text \<open>
  The matrix after the loop over the answers, started at row \<open>i0\<close>: the rows before
  \<open>i0\<close> are untouched. Without a warning every answer passed and has its span in its
  row, and the rows after the answers are untouched. With a warning there is a first
  failing answer: its row is \<open>-100\<close>, the answers before it passed, and the rows after
  it are untouched.
\<close>

lemma convert_answer_loop_rows:
  assumes "convert_answer_loop p env r (Some tk) i0 as L = Inr (L', w)"
  shows "length L' = length L \<and> (\<forall>j < i0. L' ! j = L ! j)
     \<and> (case w of
          None \<Rightarrow>
            (\<forall>k < length as. i0 + k < length L
                \<and> answer_passes p env r tk (as ! k) (L' ! (i0 + k)))
            \<and> (\<forall>j \<ge> i0 + length as. L' ! j = L ! j)
        | Some x \<Rightarrow>
            (\<exists>k < length as. i0 + k < length L
               \<and> answer_fails env r tk (as ! k) x
               \<and> L' ! (i0 + k) = (- 100, - 100)
               \<and> (\<forall>k' < k. answer_passes p env r tk (as ! k') (L' ! (i0 + k')))
               \<and> (\<forall>j > i0 + k. L' ! j = L ! j)))"
  using assms
proof (induction as arbitrary: i0 L L' w)
  case Nil
  then show ?case by simp
next
  case (Cons a as)
  from Cons.prems obtain L1 w1 where step: "convert_answer p env r (Some tk) i0 a L = Inr (L1, w1)"
    by (auto split: sum.splits)
  note st = convert_answer_step [OF step]
  then have i0: "i0 < length L" by simp
  show ?case
  proof (cases w1)
    case (Some x)
    with Cons.prems step have res: "L' = L1" "w = Some x" by auto
    from st Some have f: "answer_fails env r tk a x" and L1: "L1 = L[i0 := (- 100, - 100)]"
      by simp_all
    have "0 < length (a # as) \<and> i0 + 0 < length L
               \<and> answer_fails env r tk ((a # as) ! 0) x
               \<and> L1 ! (i0 + 0) = (- 100, - 100)
               \<and> (\<forall>k' < 0. answer_passes p env r tk ((a # as) ! k') (L1 ! (i0 + k')))
               \<and> (\<forall>j > i0 + 0. L1 ! j = L ! j)"
      using f L1 i0 by simp
    then have "\<exists>k < length (a # as). i0 + k < length L
               \<and> answer_fails env r tk ((a # as) ! k) x
               \<and> L1 ! (i0 + k) = (- 100, - 100)
               \<and> (\<forall>k' < k. answer_passes p env r tk ((a # as) ! k') (L1 ! (i0 + k')))
               \<and> (\<forall>j > i0 + k. L1 ! j = L ! j)"
      by (rule exI [of _ 0])
    with L1 show ?thesis unfolding res by simp
  next
    case None
    with Cons.prems step have rec: "convert_answer_loop p env r (Some tk) (Suc i0) as L1 = Inr (L', w)"
      by auto
    note IH = Cons.IH [OF rec]
    define row where "row = L1 ! i0"
    from st None have pass: "answer_passes p env r tk a (L1 ! i0)"
      and L1: "L1 = L[i0 := row]"
      by (simp_all add: row_def)
    have len: "length L1 = length L" using L1 by simp
    have head: "L' ! i0 = L1 ! i0"
      using IH by simp
    have before: "\<forall>j < i0. L' ! j = L ! j"
      using IH L1 by simp
    show ?thesis
    proof (cases w)
      case None': None
      from IH None' have
        a2: "\<forall>k < length as. Suc i0 + k < length L1
                   \<and> answer_passes p env r tk (as ! k) (L' ! (Suc i0 + k))"
        and a3: "\<forall>j \<ge> Suc i0 + length as. L' ! j = L1 ! j"
        by simp_all
      have rows: "i0 + k < length L \<and> answer_passes p env r tk ((a # as) ! k) (L' ! (i0 + k))"
        if "k < length (a # as)" for k
      proof (cases k)
        case 0
        with pass head i0 show ?thesis by simp
      next
        case (Suc k')
        with that a2 len show ?thesis by auto
      qed
      have after: "\<forall>j \<ge> i0 + length (a # as). L' ! j = L ! j"
        using a3 L1 by simp
      from IH len before rows after None' show ?thesis by simp
    next
      case (Some x)
      from IH Some obtain k where k: "k < length as" "Suc i0 + k < length L1"
        "answer_fails env r tk (as ! k) x"
        "L' ! (Suc i0 + k) = (- 100, - 100)"
        "\<forall>k' < k. answer_passes p env r tk (as ! k') (L' ! (Suc i0 + k'))"
        "\<forall>j > Suc i0 + k. L' ! j = L1 ! j"
        by auto
      have rows: "answer_passes p env r tk ((a # as) ! k') (L' ! (i0 + k'))" if "k' < Suc k" for k'
      proof (cases k')
        case 0
        with pass head show ?thesis by simp
      next
        case (Suc k'')
        with that k(5) show ?thesis by auto
      qed
      have after: "\<forall>j > i0 + Suc k. L' ! j = L ! j"
        using k(6) L1 by simp
      have "Suc k < length (a # as) \<and> i0 + Suc k < length L
               \<and> answer_fails env r tk ((a # as) ! Suc k) x
               \<and> L' ! (i0 + Suc k) = (- 100, - 100)
               \<and> (\<forall>k' < Suc k. answer_passes p env r tk ((a # as) ! k') (L' ! (i0 + k')))
               \<and> (\<forall>j > i0 + Suc k. L' ! j = L ! j)"
        using k(1-4) len rows after by simp
      then have "\<exists>k < length (a # as). i0 + k < length L
               \<and> answer_fails env r tk ((a # as) ! k) x
               \<and> L' ! (i0 + k) = (- 100, - 100)
               \<and> (\<forall>k' < k. answer_passes p env r tk ((a # as) ! k') (L' ! (i0 + k')))
               \<and> (\<forall>j > i0 + k. L' ! j = L ! j)"
        by (rule exI [of _ "Suc k"])
      with IH len before Some show ?thesis by simp
    qed
  qed
qed

lemma convert_answers_sample_loop:
  assumes run: "convert_answers_sample p env r False s = Inr (s', err, ws)"
    and tk: "tokenized s = Some tk"
    and ne: "raw_answers r \<noteq> []"
  shows "\<exists>L w. convert_answer_loop p env r (Some tk) 0 (raw_answers r)
                  (replicate (nat (max_answers p)) (- 1, - 1)) = Inr (L, w)
           \<and> s' = s\<lparr>tokenized := Some (tk\<lparr>tok_labels := Some L\<rparr>)\<rparr>
           \<and> err = (w \<noteq> None) \<and> ws = (case w of None \<Rightarrow> [] | Some x \<Rightarrow> [x])"
  using assms
  by (auto simp: convert_answers_sample_def np_full_def bind_err_def
           split: if_splits sum.splits)

lemma tok_span_eq:
  assumes "offset_to_token_idx_vecorized env (raw_document_offsets r) (ans_answer_start a) = Inr sd"
    and "offset_to_token_idx_vecorized env (raw_document_offsets r)
           (ans_answer_start a + int (length (ans_text a)) - 1) = Inr ed"
  shows "tok_span env r tk a = Some (sd - tok_passage_start_t tk, ed - tok_passage_start_t tk)"
  using assms by (simp add: tok_span_def)

lemmas answers_eval = convert_answers_basket_def convert_answers_sample_def convert_answer_def
  answer_span_def answer_check_def np_full_def set_row_def bind_err_def Let_def abcd_raw_def
  abcd_sample_def abcd_tokenized_def abcd_basket_def example_processor_def example_env_def
  containing_token_idx_def py_slice_def slice_bound_def py_strip_def py_isspace_def
  numeral_eq_Suc

text \<open>
  C2. The claim is what the code is after, and the code misses it by one: the end of the
  span is tested with \<^verbatim>\<open>passage_len_t >= answer_end_t\<close>, where the answer check a few
  lines below takes \<^verbatim>\<open>answer_end_t >= passage_len_t\<close> for an answer that is not within
  the passage. In the document \<^verbatim>\<open>"a b c d"\<close> with a passage of the first two tokens
  (\<^verbatim>\<open>max_seq_len = 6\<close>), the answer \<^verbatim>\<open>"b c"\<close> starts in token 1 and ends in token 2, which
  is not in \<open>[0, 2)\<close>. \<^verbatim>\<open>_convert_answers\<close> gives it the row \<open>(4, 5)\<close> instead of
  \<open>(0, 0)\<close>, and in the features that \<^verbatim>\<open>_passages_to_paddle_features\<close> builds from it the
  end label 5 is the closing special token, where \<^verbatim>\<open>span_mask\<close> is 0.
\<close>

theorem answer_ending_after_passage_is_labelled:
  "convert_answers (example_processor 6 1 3 2) example_env
     [abcd_basket [\<lparr>ans_text = ''b c'', ans_answer_start = 2\<rparr>]
        (Some [abcd_sample ''0-0-0'' 0 [Id 11, Id 12] None None])]
   = Inr ([abcd_basket [\<lparr>ans_text = ''b c'', ans_answer_start = 2\<rparr>]
             (Some [abcd_sample ''0-0-0'' 0 [Id 11, Id 12] (Some [(4, 5), (- 1, - 1)]) None])], [])
   \<and> passages_to_paddle_features (example_processor 6 1 3 2)
       [abcd_basket [\<lparr>ans_text = ''b c'', ans_answer_start = 2\<rparr>]
          (Some [abcd_sample ''0-0-0'' 0 [Id 11, Id 12] (Some [(4, 5), (- 1, - 1)]) None])] False
     = Inr ([abcd_basket [\<lparr>ans_text = ''b c'', ans_answer_start = 2\<rparr>]
               (Some [abcd_sample ''0-0-0'' 0 [Id 11, Id 12] (Some [(4, 5), (- 1, - 1)])
                        (Some [straddle_row])])],
            example_processor 6 1 3 2)
   \<and> ft_labels straddle_row ! 0 = (4, 5)
   \<and> ft_input_ids straddle_row ! 5 = Id 102
   \<and> ft_span_mask straddle_row ! 5 = 0
   \<and> containing_token_idx [0, 2, 4, 6] 2 = Inr 1
   \<and> containing_token_idx [0, 2, 4, 6] (2 + 3 - 1) = Inr 2
   \<and> \<not> (2 :: int) < int (length [Id 11, Id 12])"
proof -
  have ids: "py_int ''0'' = Inr 0"
    by (simp add: py_int_def int_strip_def int_isspace_def digit_val_def)
  have a: "convert_answers (example_processor 6 1 3 2) example_env
     [abcd_basket [\<lparr>ans_text = ''b c'', ans_answer_start = 2\<rparr>]
        (Some [abcd_sample ''0-0-0'' 0 [Id 11, Id 12] None None])]
   = Inr ([abcd_basket [\<lparr>ans_text = ''b c'', ans_answer_start = 2\<rparr>]
             (Some [abcd_sample ''0-0-0'' 0 [Id 11, Id 12] (Some [(4, 5), (- 1, - 1)]) None])], [])"
    by (simp add: answers_eval)
  have b: "passages_to_paddle_features (example_processor 6 1 3 2)
       [abcd_basket [\<lparr>ans_text = ''b c'', ans_answer_start = 2\<rparr>]
          (Some [abcd_sample ''0-0-0'' 0 [Id 11, Id 12] (Some [(4, 5), (- 1, - 1)]) None])] False
     = Inr ([abcd_basket [\<lparr>ans_text = ''b c'', ans_answer_start = 2\<rparr>]
               (Some [abcd_sample ''0-0-0'' 0 [Id 11, Id 12] (Some [(4, 5), (- 1, - 1)])
                        (Some [straddle_row])])],
            example_processor 6 1 3 2)"
    by (simp add: passages_to_paddle_features_def abcd_basket_def abcd_sample_def abcd_tokenized_def
          sample_locals_def ids sample_to_features_def feature_arrays_def label_check_def
          label_check2_def straddle_row_def example_processor_def
          bert_like_def py_repeat_def bind_err_def Let_def numeral_eq_Suc)
  from a b show ?thesis
    by (simp add: straddle_row_def containing_token_idx_def)
qed

text \<open>
  After an answer error in the basket a sample gets the no-answer matrix and logs
  nothing, and so does every sample after it.
\<close>

lemma sample_after_error:
  assumes "convert_answers_sample p env r True s = Inr (s', err, ws)"
  shows "err \<and> ws = []
       \<and> (\<exists>tk'. tokenized s' = Some tk' \<and> tok_labels tk' = Some (no_answer_labels p))"
  using assms
  by (auto simp: convert_answers_sample_def np_full_def set_row_def bind_err_def
        no_answer_labels_def split: if_splits option.splits)

lemma samples_after_error:
  assumes "convert_answers_samples p env r True ss = Inr (ss', ws)"
  shows "ws = [] \<and> length ss' = length ss
       \<and> (\<forall>m<length ss. \<exists>tk'. tokenized (ss' ! m) = Some tk'
               \<and> tok_labels tk' = Some (no_answer_labels p))"
  using assms
proof (induction ss arbitrary: ss' ws)
  case Nil
  then show ?case by simp
next
  case (Cons s ss)
  from Cons.prems obtain s1 err1 ws1 ss1 ws2 where
    a: "convert_answers_sample p env r True s = Inr (s1, err1, ws1)"
    and b: "convert_answers_samples p env r err1 ss = Inr (ss1, ws2)"
    and c: "ss' = s1 # ss1" "ws = ws1 @ ws2"
    by (auto split: sum.splits)
  from sample_after_error [OF a] have e: "err1" "ws1 = []"
    and l: "\<exists>tk'. tokenized s1 = Some tk' \<and> tok_labels tk' = Some (no_answer_labels p)"
    by simp_all
  from b e have b': "convert_answers_samples p env r True ss = Inr (ss1, ws2)" by simp
  note IH = Cons.IH [OF b']
  have "\<exists>tk'. tokenized ((s1 # ss1) ! m) = Some tk'
               \<and> tok_labels tk' = Some (no_answer_labels p)" if "m < length (s # ss)" for m
    using that l IH by (cases m) auto
  with IH c e show ?case by simp
qed

lemma sample_warning_sentinel:
  assumes "convert_answers_sample p env r False s = Inr (s', err, ws)"
  shows "(err \<longrightarrow> has_sentinel s' \<and> length ws = 1) \<and> (\<not> err \<longrightarrow> ws = [])"
proof (cases "raw_answers r = []")
  case True
  with assms show ?thesis
    by (auto simp: convert_answers_sample_def bind_err_def split: sum.splits option.splits)
next
  case False
  from assms obtain tk where tk: "tokenized s = Some tk"
    by (auto simp: convert_answers_sample_def bind_err_def split: sum.splits option.splits prod.splits)
  from convert_answers_sample_loop [OF assms tk False] obtain L w where
    loop: "convert_answer_loop p env r (Some tk) 0 (raw_answers r)
             (replicate (nat (max_answers p)) (- 1, - 1)) = Inr (L, w)"
    and s': "s' = s\<lparr>tokenized := Some (tk\<lparr>tok_labels := Some L\<rparr>)\<rparr>"
    and err: "err = (w \<noteq> None)" and ws: "ws = (case w of None \<Rightarrow> [] | Some x \<Rightarrow> [x])"
    by blast
  show ?thesis
  proof (cases w)
    case None
    with err ws show ?thesis by simp
  next
    case (Some x)
    with convert_answer_loop_rows [OF loop] obtain k where
      "k < length L" "L ! k = (- 100, - 100)"
      by auto
    then have "(- 100, - 100) \<in> set L" by (metis nth_mem)
    with Some err ws s' show ?thesis by (simp add: has_sentinel_def)
  qed
qed

lemma samples_up_to:
  assumes "convert_answers_samples p env r False ss = Inr (ss', ws)"
    and "n < length ss"
    and "\<forall>m<n. \<not> has_sentinel (ss' ! m)"
  shows "length ss' = length ss
       \<and> (\<exists>err wsn. convert_answers_sample p env r False (ss ! n) = Inr (ss' ! n, err, wsn)
            \<and> (err \<longrightarrow> ws = wsn
                  \<and> (\<forall>m. n < m \<and> m < length ss \<longrightarrow>
                        (\<exists>tk'. tokenized (ss' ! m) = Some tk'
                           \<and> tok_labels tk' = Some (no_answer_labels p)))))"
  using assms
proof (induction ss arbitrary: n ss' ws)
  case Nil
  then show ?case by simp
next
  case (Cons s ss)
  from Cons.prems(1) obtain s1 err1 ws1 ss1 ws2 where
    a: "convert_answers_sample p env r False s = Inr (s1, err1, ws1)"
    and b: "convert_answers_samples p env r err1 ss = Inr (ss1, ws2)"
    and c: "ss' = s1 # ss1" "ws = ws1 @ ws2"
    by (auto split: sum.splits)
  show ?case
  proof (cases n)
    case 0
    have len: "length ss1 = length ss"
    proof (cases err1)
      case True
      with b samples_after_error [of p env r ss ss1 ws2] show ?thesis by simp
    next
      case False
      with b Cons.IH [of ss1 ws2 0] show ?thesis
        by (cases ss) auto
    qed
    have later: "ws = ws1 \<and> (\<forall>m. 0 < m \<and> m < length (s # ss) \<longrightarrow>
                        (\<exists>tk'. tokenized (ss' ! m) = Some tk'
                           \<and> tok_labels tk' = Some (no_answer_labels p)))" if "err1"
    proof -
      from that b have "convert_answers_samples p env r True ss = Inr (ss1, ws2)" by simp
      from samples_after_error [OF this] c show ?thesis
        by (auto simp: nth_Cons split: nat.splits)
    qed
    from a c len later 0 show ?thesis by auto
  next
    case (Suc n')
    from Cons.prems(3) Suc c have "\<not> has_sentinel s1" by auto
    with sample_warning_sentinel [OF a] have e: "\<not> err1" "ws1 = []" by auto
    from b e have b': "convert_answers_samples p env r False ss = Inr (ss1, ws2)" by simp
    from Cons.prems(2) Suc have n': "n' < length ss" by simp
    from Cons.prems(3) Suc c have prev: "\<forall>m<n'. \<not> has_sentinel (ss1 ! m)" by auto
    from Cons.IH [OF b' n' prev] obtain err wsn where
      len: "length ss1 = length ss"
      and run: "convert_answers_sample p env r False (ss ! n') = Inr (ss1 ! n', err, wsn)"
      and later: "err \<longrightarrow> ws2 = wsn
                  \<and> (\<forall>m. n' < m \<and> m < length ss \<longrightarrow>
                        (\<exists>tk'. tokenized (ss1 ! m) = Some tk'
                           \<and> tok_labels tk' = Some (no_answer_labels p)))"
      by blast
    have later': "err \<longrightarrow> ws = wsn
                  \<and> (\<forall>m. n < m \<and> m < length (s # ss) \<longrightarrow>
                        (\<exists>tk'. tokenized (ss' ! m) = Some tk'
                           \<and> tok_labels tk' = Some (no_answer_labels p)))"
    proof
      assume err
      with later have l: "ws2 = wsn" "\<forall>m. n' < m \<and> m < length ss \<longrightarrow>
                        (\<exists>tk'. tokenized (ss1 ! m) = Some tk'
                           \<and> tok_labels tk' = Some (no_answer_labels p))"
        by simp_all
      have "\<exists>tk'. tokenized (ss' ! m) = Some tk' \<and> tok_labels tk' = Some (no_answer_labels p)"
        if "n < m" "m < length (s # ss)" for m
      proof -
        from that Suc obtain m' where m': "m = Suc m'" "n' < m'" "m' < length ss"
          by (cases m) auto
        with l(2) c show ?thesis by simp
      qed
      with l(1) c e show "ws = wsn
                  \<and> (\<forall>m. n < m \<and> m < length (s # ss) \<longrightarrow>
                        (\<exists>tk'. tokenized (ss' ! m) = Some tk'
                           \<and> tok_labels tk' = Some (no_answer_labels p)))"
        by simp
    qed
    from len run later' c Suc show ?thesis by auto
  qed
qed

lemma convert_answers_nth:
  assumes "convert_answers p env bs = Inr (bs', ws)"
  shows "length bs' = length bs
       \<and> (\<forall>b<length bs. \<exists>wsb. convert_answers_basket p env (bs ! b) = Inr (bs' ! b, wsb))"
  using assms
proof (induction bs arbitrary: bs' ws)
  case Nil
  then show ?case by simp
next
  case (Cons x xs)
  from Cons.prems obtain b1 w1 bs1 w2 where
    a: "convert_answers_basket p env x = Inr (b1, w1)"
    and b: "convert_answers p env xs = Inr (bs1, w2)"
    and c: "bs' = b1 # bs1"
    by (auto split: sum.splits)
  from Cons.IH [OF b] a c show ?case
    by (auto simp: nth_Cons split: nat.splits)
qed

lemma convert_answers_basket_samples:
  assumes "convert_answers_basket p env basket = Inr (basket', wsb)"
    and "samples basket = Some ss"
  shows "\<exists>ss1. convert_answers_samples p env (raw basket) False ss = Inr (ss1, wsb)
           \<and> basket' = basket\<lparr>samples := Some ss1\<rparr>"
  using assms
  by (auto simp: convert_answers_basket_def bind_err_def split: sum.splits)

text \<open>
  An answer outside the passage is not checked: with no failed check before it, its row
  is the one that the containment test wrote.
\<close>

lemma skipped_check_in_sample:
  assumes run: "convert_answers_sample p env r False s = Inr (s', err, ws)"
    and tk: "tokenized s = Some tk"
    and i: "i < length (raw_answers r)"
    and sd: "offset_to_token_idx_vecorized env (raw_document_offsets r)
               (ans_answer_start (raw_answers r ! i)) = Inr sd"
    and ed: "offset_to_token_idx_vecorized env (raw_document_offsets r)
               (ans_answer_start (raw_answers r ! i)
                  + int (length (ans_text (raw_answers r ! i))) - 1) = Inr ed"
    and lab: "tokenized s' = Some tk'" "tok_labels tk' = Some L"
    and outside: "sd - tok_passage_start_t tk < 0
                  \<or> ed - tok_passage_start_t tk \<ge> int (length (tok_passage_tokens tk))"
    and first: "\<forall>j<i. L ! j \<noteq> (- 100, - 100)"
  shows "i < length L
       \<and> L ! i = answer_span p tk (sd - tok_passage_start_t tk) (ed - tok_passage_start_t tk)"
proof -
  from i have ne: "raw_answers r \<noteq> []" by auto
  from convert_answers_sample_loop [OF run tk ne] obtain L0 w where
    loop: "convert_answer_loop p env r (Some tk) 0 (raw_answers r)
             (replicate (nat (max_answers p)) (- 1, - 1)) = Inr (L0, w)"
    and s': "s' = s\<lparr>tokenized := Some (tk\<lparr>tok_labels := Some L0\<rparr>)\<rparr>"
    by blast
  from s' lab have L: "L0 = L" by auto
  note rows = convert_answer_loop_rows [OF loop, unfolded L]
  have nocheck: "answer_check r tk (raw_answers r ! i) (sd - tok_passage_start_t tk)
                 (ed - tok_passage_start_t tk) = None"
    using outside by (auto simp: answer_check_def Let_def)
  have nofail: "\<not> answer_fails env r tk (raw_answers r ! i) x" for x
    using nocheck tok_span_eq [OF sd ed, of tk] by (simp add: answer_fails_def)
  have pass: "i < length L \<and> answer_passes p env r tk (raw_answers r ! i) (L ! i)"
  proof (cases w)
    case None
    with rows i show ?thesis by simp
  next
    case (Some x)
    with rows obtain k where k: "k < length (raw_answers r)" "L ! k = (- 100, - 100)"
      "answer_fails env r tk (raw_answers r ! k) x"
      "k < length (replicate (nat (max_answers p)) (- 1 :: int, - 1 :: int))"
      "\<forall>k' < k. answer_passes p env r tk (raw_answers r ! k') (L ! k')"
      by auto
    from k(2) first have "\<not> k < i" by blast
    moreover from k(3) nofail have "k \<noteq> i" by blast
    ultimately have "i < k" by simp
    with k rows show ?thesis by simp
  qed
  with tok_span_eq [OF sd ed, of tk] show ?thesis
    by (auto simp: answer_passes_def)
qed

text \<open>
  The first answer of a sample that lies within the passage and fails the check, in a
  sample that is reached without an answer error.
\<close>

lemma failed_check_in_sample:
  assumes run: "convert_answers_sample p env r False s = Inr (s', err, ws)"
    and tk: "tokenized s = Some tk"
    and i: "i < length (raw_answers r)"
    and sd: "offset_to_token_idx_vecorized env (raw_document_offsets r)
               (ans_answer_start (raw_answers r ! i)) = Inr sd"
    and ed: "offset_to_token_idx_vecorized env (raw_document_offsets r)
               (ans_answer_start (raw_answers r ! i)
                  + int (length (ans_text (raw_answers r ! i))) - 1) = Inr ed"
    and lab: "tokenized s' = Some tk'" "tok_labels tk' = Some L"
    and inside: "0 \<le> sd - tok_passage_start_t tk"
                "ed - tok_passage_start_t tk < int (length (tok_passage_tokens tk))"
    and bad: "\<not> py_in_str (ans_text (raw_answers r ! i)) (raw_document_text r)
              \<or> py_strip (py_slice (raw_document_text r)
                     (Some (ans_answer_start (raw_answers r ! i)))
                     (Some (ans_answer_start (raw_answers r ! i)
                              + int (length (ans_text (raw_answers r ! i))) - 1 + 1)))
                 \<noteq> py_strip (ans_text (raw_answers r ! i))"
    and first: "\<forall>j<i. L ! j \<noteq> (- 100, - 100)"
  shows "L ! i = (- 100, - 100)
       \<and> (\<forall>j. i < j \<and> j < length L \<longrightarrow> L ! j = (- 1, - 1))
       \<and> int (length L) = max_answers p \<and> err \<and> length ws = 1"
proof -
  from i have ne: "raw_answers r \<noteq> []" by auto
  from convert_answers_sample_loop [OF run tk ne] obtain L0 w where
    loop: "convert_answer_loop p env r (Some tk) 0 (raw_answers r)
             (replicate (nat (max_answers p)) (- 1, - 1)) = Inr (L0, w)"
    and s': "s' = s\<lparr>tokenized := Some (tk\<lparr>tok_labels := Some L0\<rparr>)\<rparr>"
    and err: "err = (w \<noteq> None)" and ws: "ws = (case w of None \<Rightarrow> [] | Some x \<Rightarrow> [x])"
    by blast
  from s' lab have L: "L0 = L" by auto
  note rows = convert_answer_loop_rows [OF loop, unfolded L]
  have fails: "answer_check r tk (raw_answers r ! i) (sd - tok_passage_start_t tk)
                 (ed - tok_passage_start_t tk) \<noteq> None"
    using inside bad by (auto simp: answer_check_def Let_def)
  have nopass: "\<not> answer_passes p env r tk (raw_answers r ! i) row" for row
    using fails tok_span_eq [OF sd ed, of tk] by (simp add: answer_passes_def)
  have pos: "0 \<le> max_answers p"
    using run by (auto simp: convert_answers_sample_def np_full_def bind_err_def split: if_splits)
  show ?thesis
  proof (cases w)
    case None
    with rows i have "answer_passes p env r tk (raw_answers r ! i) (L ! i)" by simp
    with nopass show ?thesis by blast
  next
    case (Some x)
    with rows obtain k where k: "k < length (raw_answers r)" "L ! k = (- 100, - 100)"
      "\<forall>k' < k. answer_passes p env r tk (raw_answers r ! k') (L ! k')"
      "\<forall>j > k. L ! j = replicate (nat (max_answers p)) (- 1, - 1) ! j"
      by auto
    from k(3) nopass have "\<not> i < k" by blast
    moreover from k(2) first have "\<not> k < i" by blast
    ultimately have ki: "k = i" by simp
    from rows have len: "length L = nat (max_answers p)" by simp
    from k ki len pos Some err ws show ?thesis by auto
  qed
qed

text \<open>
  C3, as the claim states it, fails: only the row of the failing answer gets \<open>-100\<close>.
  In the document \<^verbatim>\<open>"a b c d"\<close> the second answer claims \<^verbatim>\<open>"c"\<close> at character 2, where
  the document has \<^verbatim>\<open>"b"\<close>; its row becomes \<open>(-100, -100)\<close>, and the third answer, which
  comes after it, keeps the fill value \<open>(-1, -1)\<close>.
\<close>

theorem later_answers_keep_fill_value:
  "convert_answers (example_processor 10 2 3 3) example_env
     [abcd_basket [\<lparr>ans_text = ''a'', ans_answer_start = 0\<rparr>,
                   \<lparr>ans_text = ''c'', ans_answer_start = 2\<rparr>,
                   \<lparr>ans_text = ''d'', ans_answer_start = 6\<rparr>]
        (Some [abcd_sample ''0-0-0'' 0 [Id 11, Id 12, Id 13, Id 14] None None])]
   = Inr ([abcd_basket [\<lparr>ans_text = ''a'', ans_answer_start = 0\<rparr>,
                        \<lparr>ans_text = ''c'', ans_answer_start = 2\<rparr>,
                        \<lparr>ans_text = ''d'', ans_answer_start = 6\<rparr>]
             (Some [abcd_sample ''0-0-0'' 0 [Id 11, Id 12, Id 13, Id 14]
                      (Some [(3, 3), (- 100, - 100), (- 1, - 1)]) None])],
          [AnswerMismatch])"
  by (simp add: answers_eval)

text \<open>
  C3, amended. Let \<^verbatim>\<open>_convert_answers\<close> return, and take a basket, a sample of it and an
  answer such that no answer check has failed before in the basket: no earlier sample of
  the basket has a row \<open>(-100, -100)\<close>, and no earlier row of this sample is
  \<open>(-100, -100)\<close>. With \<open>sd\<close> and \<open>ed\<close> the document tokens of the first and the last
  character of the answer:

  \<^item> If the answer lies outside the passage (\<open>sd\<close> minus \<^verbatim>\<open>passage_start_t\<close> is negative
    or \<open>ed\<close> minus \<^verbatim>\<open>passage_start_t\<close> is at least the passage length), the check is
    skipped: the row stays as the containment test wrote it, and it is \<open>(0, 0)\<close> when
    the start is negative or the end is beyond the passage length.

  \<^item> If the answer lies within the passage (the shifted start is not negative, the
    shifted end is below the passage length) and its text does not occur in the
    document, or differs, stripped, from the characters of the document at its offsets,
    then its row is \<open>(-100, -100)\<close>; every later row of the sample keeps the fill value
    \<open>(-1, -1)\<close>, since the later answers are not processed; exactly one warning is
    logged for the basket; and every later sample of the basket gets row 0 \<open>= (0, 0)\<close>
    and the fill value in all other rows.
\<close>

theorem failed_answer_check_marks_one_row:
  assumes run: "convert_answers p env bs = Inr (bs', ws)"
    and b: "b < length bs" "samples (bs ! b) = Some ss" "samples (bs' ! b) = Some ss'"
    and n: "n < length ss" "tokenized (ss ! n) = Some tk"
    and i: "i < length (raw_answers (raw (bs ! b)))"
    and sd: "offset_to_token_idx_vecorized env (raw_document_offsets (raw (bs ! b)))
               (ans_answer_start (raw_answers (raw (bs ! b)) ! i)) = Inr sd"
    and ed: "offset_to_token_idx_vecorized env (raw_document_offsets (raw (bs ! b)))
               (ans_answer_start (raw_answers (raw (bs ! b)) ! i)
                  + int (length (ans_text (raw_answers (raw (bs ! b)) ! i))) - 1) = Inr ed"
    and lab: "tokenized (ss' ! n) = Some tk'" "tok_labels tk' = Some L"
    and before: "\<forall>m<n. \<not> has_sentinel (ss' ! m)" "\<forall>j<i. L ! j \<noteq> (- 100, - 100)"
  shows "(sd - tok_passage_start_t tk < 0
            \<or> ed - tok_passage_start_t tk \<ge> int (length (tok_passage_tokens tk))
          \<longrightarrow> L ! i = answer_span p tk (sd - tok_passage_start_t tk)
                         (ed - tok_passage_start_t tk)
              \<and> (sd - tok_passage_start_t tk < 0
                    \<or> ed - tok_passage_start_t tk > int (length (tok_passage_tokens tk))
                  \<longrightarrow> L ! i = (0, 0)))
       \<and> (0 \<le> sd - tok_passage_start_t tk
            \<and> ed - tok_passage_start_t tk < int (length (tok_passage_tokens tk))
            \<and> (\<not> py_in_str (ans_text (raw_answers (raw (bs ! b)) ! i))
                    (raw_document_text (raw (bs ! b)))
               \<or> py_strip (py_slice (raw_document_text (raw (bs ! b)))
                     (Some (ans_answer_start (raw_answers (raw (bs ! b)) ! i)))
                     (Some (ans_answer_start (raw_answers (raw (bs ! b)) ! i)
                              + int (length (ans_text (raw_answers (raw (bs ! b)) ! i)))
                              - 1 + 1)))
                 \<noteq> py_strip (ans_text (raw_answers (raw (bs ! b)) ! i)))
          \<longrightarrow> L ! i = (- 100, - 100)
              \<and> (\<forall>j. i < j \<and> j < length L \<longrightarrow> L ! j = (- 1, - 1))
              \<and> int (length L) = max_answers p
              \<and> (\<exists>wsb. convert_answers_basket p env (bs ! b) = Inr (bs' ! b, wsb)
                    \<and> length wsb = 1)
              \<and> (\<forall>m. n < m \<and> m < length ss \<longrightarrow>
                    (\<exists>tkm. tokenized (ss' ! m) = Some tkm
                       \<and> tok_labels tkm = Some ((replicate (nat (max_answers p)) (- 1, - 1))
                                                  [0 := (0, 0)]))))"
proof -
  let ?r = "raw (bs ! b)"
  from convert_answers_nth [OF run] b(1) obtain wsb where
    bas: "convert_answers_basket p env (bs ! b) = Inr (bs' ! b, wsb)" by blast
  from convert_answers_basket_samples [OF bas b(2)] b(3) have
    sam: "convert_answers_samples p env ?r False ss = Inr (ss', wsb)" by auto
  from samples_up_to [OF sam n(1) before(1)] obtain err wsn where
    one: "convert_answers_sample p env ?r False (ss ! n) = Inr (ss' ! n, err, wsn)"
    and later: "err \<longrightarrow> wsb = wsn
                  \<and> (\<forall>m. n < m \<and> m < length ss \<longrightarrow>
                        (\<exists>tk'. tokenized (ss' ! m) = Some tk'
                           \<and> tok_labels tk' = Some (no_answer_labels p)))"
    by blast
  show ?thesis
  proof (intro conjI impI)
    assume out: "sd - tok_passage_start_t tk < 0
            \<or> ed - tok_passage_start_t tk \<ge> int (length (tok_passage_tokens tk))"
    from skipped_check_in_sample [OF one n(2) i sd ed lab out before(2)]
    show row: "L ! i = answer_span p tk (sd - tok_passage_start_t tk)
                         (ed - tok_passage_start_t tk)"
      by simp
    assume "sd - tok_passage_start_t tk < 0
                    \<or> ed - tok_passage_start_t tk > int (length (tok_passage_tokens tk))"
    with row show "L ! i = (0, 0)" by (auto simp: answer_span_def Let_def)
  next
    assume bad: "0 \<le> sd - tok_passage_start_t tk
            \<and> ed - tok_passage_start_t tk < int (length (tok_passage_tokens tk))
            \<and> (\<not> py_in_str (ans_text (raw_answers ?r ! i)) (raw_document_text ?r)
               \<or> py_strip (py_slice (raw_document_text ?r)
                     (Some (ans_answer_start (raw_answers ?r ! i)))
                     (Some (ans_answer_start (raw_answers ?r ! i)
                              + int (length (ans_text (raw_answers ?r ! i))) - 1 + 1)))
                 \<noteq> py_strip (ans_text (raw_answers ?r ! i)))"
    then have in1: "0 \<le> sd - tok_passage_start_t tk"
      and in2: "ed - tok_passage_start_t tk < int (length (tok_passage_tokens tk))"
      and mism: "\<not> py_in_str (ans_text (raw_answers ?r ! i)) (raw_document_text ?r)
               \<or> py_strip (py_slice (raw_document_text ?r)
                     (Some (ans_answer_start (raw_answers ?r ! i)))
                     (Some (ans_answer_start (raw_answers ?r ! i)
                              + int (length (ans_text (raw_answers ?r ! i))) - 1 + 1)))
                 \<noteq> py_strip (ans_text (raw_answers ?r ! i))"
      by simp_all
    from failed_check_in_sample [OF one n(2) i sd ed lab in1 in2 mism before(2)]
    have f: "L ! i = (- 100, - 100)" "\<forall>j. i < j \<and> j < length L \<longrightarrow> L ! j = (- 1, - 1)"
      "int (length L) = max_answers p" "err" "length wsn = 1"
      by simp_all
    from f(1) show "L ! i = (- 100, - 100)" .
    from f(2) show "\<forall>j. i < j \<and> j < length L \<longrightarrow> L ! j = (- 1, - 1)" .
    from f(3) show "int (length L) = max_answers p" .
    from later f(4,5) bas
    show "\<exists>wsb. convert_answers_basket p env (bs ! b) = Inr (bs' ! b, wsb) \<and> length wsb = 1"
      by auto
    from later f(4)
    show "\<forall>m. n < m \<and> m < length ss \<longrightarrow>
                    (\<exists>tkm. tokenized (ss' ! m) = Some tkm
                       \<and> tok_labels tkm = Some ((replicate (nat (max_answers p)) (- 1, - 1))
                                                  [0 := (0, 0)]))"
      by (simp add: no_answer_labels_def)
  qed
qed

lemma two_passages_run:
  "convert_answers (example_processor 6 1 3 3) example_env
     [abcd_basket [\<lparr>ans_text = ''zzz'', ans_answer_start = 4\<rparr>,
                   \<lparr>ans_text = ''x'', ans_answer_start = 0\<rparr>]
        (Some [abcd_sample ''0-0-0'' 0 [Id 11, Id 12] None None,
               abcd_sample ''0-0-1'' 2 [Id 13, Id 14] None None])]
   = Inr ([abcd_basket [\<lparr>ans_text = ''zzz'', ans_answer_start = 4\<rparr>,
                        \<lparr>ans_text = ''x'', ans_answer_start = 0\<rparr>]
             (Some [abcd_sample ''0-0-0'' 0 [Id 11, Id 12]
                      (Some [(0, 0), (- 100, - 100), (- 1, - 1)]) None,
                    abcd_sample ''0-0-1'' 2 [Id 13, Id 14]
                      (Some [(0, 0), (- 1, - 1), (- 1, - 1)]) None])],
          [AnswerNotContained])"
  by (simp add: answers_eval)

theorem failed_answer_check_marks_one_row_witness:
  "convert_answers (example_processor 6 1 3 3) example_env
     [abcd_basket [\<lparr>ans_text = ''zzz'', ans_answer_start = 4\<rparr>,
                   \<lparr>ans_text = ''x'', ans_answer_start = 0\<rparr>]
        (Some [abcd_sample ''0-0-0'' 0 [Id 11, Id 12] None None,
               abcd_sample ''0-0-1'' 2 [Id 13, Id 14] None None])]
   = Inr ([abcd_basket [\<lparr>ans_text = ''zzz'', ans_answer_start = 4\<rparr>,
                        \<lparr>ans_text = ''x'', ans_answer_start = 0\<rparr>]
             (Some [abcd_sample ''0-0-0'' 0 [Id 11, Id 12]
                      (Some [(0, 0), (- 100, - 100), (- 1, - 1)]) None,
                    abcd_sample ''0-0-1'' 2 [Id 13, Id 14]
                      (Some [(0, 0), (- 1, - 1), (- 1, - 1)]) None])],
          [AnswerNotContained])
   \<and> [(0 :: int, 0 :: int), (- 100, - 100), (- 1, - 1)] ! 0 = (0, 0)
   \<and> [(0 :: int, 0 :: int), (- 100, - 100), (- 1, - 1)] ! 1 = (- 100, - 100)
   \<and> [(0 :: int, 0 :: int), (- 100, - 100), (- 1, - 1)] ! 2 = (- 1, - 1)
   \<and> (replicate (nat 3) (- 1 :: int, - 1 :: int))[0 := (0, 0)] = [(0, 0), (- 1, - 1), (- 1, - 1)]"
proof -
  let ?as = "[\<lparr>ans_text = ''zzz'', ans_answer_start = 4\<rparr>,
              \<lparr>ans_text = ''x'', ans_answer_start = 0\<rparr>]"
  let ?ss = "[abcd_sample ''0-0-0'' 0 [Id 11, Id 12] None None,
              abcd_sample ''0-0-1'' 2 [Id 13, Id 14] None None]"
  let ?L = "[(0 :: int, 0 :: int), (- 100, - 100), (- 1, - 1)]"
  let ?ss' = "[abcd_sample ''0-0-0'' 0 [Id 11, Id 12] (Some ?L) None,
               abcd_sample ''0-0-1'' 2 [Id 13, Id 14]
                 (Some [(0, 0), (- 1, - 1), (- 1, - 1)]) None]"
  let ?bs = "[abcd_basket ?as (Some ?ss)]"
  let ?bs' = "[abcd_basket ?as (Some ?ss')]"
  let ?p = "example_processor 6 1 3 3"
  let ?tk = "abcd_tokenized 0 [Id 11, Id 12] None"
  note run = two_passages_run
  have b: "0 < length ?bs" by simp
  have ss: "samples (?bs ! 0) = Some ?ss" by (simp add: abcd_basket_def)
  have ss': "samples (?bs' ! 0) = Some ?ss'" by (simp add: abcd_basket_def)
  have n: "0 < length ?ss" by simp
  have tk: "tokenized (?ss ! 0) = Some ?tk" by (simp add: abcd_sample_def)
  have i0: "0 < length (raw_answers (raw (?bs ! 0)))"
    by (simp add: abcd_basket_def abcd_raw_def)
  have i1: "1 < length (raw_answers (raw (?bs ! 0)))"
    by (simp add: abcd_basket_def abcd_raw_def)
  have sd0: "offset_to_token_idx_vecorized example_env (raw_document_offsets (raw (?bs ! 0)))
               (ans_answer_start (raw_answers (raw (?bs ! 0)) ! 0)) = Inr 2"
    by (simp add: abcd_basket_def abcd_raw_def example_env_def containing_token_idx_def)
  have ed0: "offset_to_token_idx_vecorized example_env (raw_document_offsets (raw (?bs ! 0)))
               (ans_answer_start (raw_answers (raw (?bs ! 0)) ! 0)
                  + int (length (ans_text (raw_answers (raw (?bs ! 0)) ! 0))) - 1) = Inr 3"
    by (simp add: abcd_basket_def abcd_raw_def example_env_def containing_token_idx_def)
  have sd1: "offset_to_token_idx_vecorized example_env (raw_document_offsets (raw (?bs ! 0)))
               (ans_answer_start (raw_answers (raw (?bs ! 0)) ! 1)) = Inr 0"
    by (simp add: abcd_basket_def abcd_raw_def example_env_def containing_token_idx_def)
  have ed1: "offset_to_token_idx_vecorized example_env (raw_document_offsets (raw (?bs ! 0)))
               (ans_answer_start (raw_answers (raw (?bs ! 0)) ! 1)
                  + int (length (ans_text (raw_answers (raw (?bs ! 0)) ! 1))) - 1) = Inr 0"
    by (simp add: abcd_basket_def abcd_raw_def example_env_def containing_token_idx_def)
  have lab: "tokenized (?ss' ! 0) = Some (abcd_tokenized 0 [Id 11, Id 12] (Some ?L))"
    by (simp add: abcd_sample_def)
  have lab2: "tok_labels (abcd_tokenized 0 [Id 11, Id 12] (Some ?L)) = Some ?L"
    by (simp add: abcd_tokenized_def)
  have prev: "\<forall>m<0. \<not> has_sentinel (?ss' ! m)" by simp
  have first0: "\<forall>j<0. ?L ! j \<noteq> (- 100, - 100)" by simp
  have first1: "\<forall>j<1. ?L ! j \<noteq> (- 100, - 100)" by simp
  note skipped =
    failed_answer_check_marks_one_row [OF run b ss ss' n tk i0 sd0 ed0 lab lab2 prev first0]
  note failed =
    failed_answer_check_marks_one_row [OF run b ss ss' n tk i1 sd1 ed1 lab lab2 prev first1]
  from skipped failed run show ?thesis
    by (simp add: abcd_tokenized_def numeral_eq_Suc)
qed

section \<open>The retrieval pipeline\<close>

lemmas retrieval_eval = convert_query_def fill_baskets_def truthy_list_def query_sample_def
  empty_ts_feature_def normalize_question_def py_slice_def slice_bound_def bind_err_def
  char_processor_def char_ids_def retrieval_dict_def question_mark_dict_def psg_def
  convert_contexts_def convert_context_def tokenize_contexts_def select_contexts_def
  all_ctx_def has_label_def passage_text_def store_contexts_def py_repeat_def
  shuffle_calls_def basket_rows_def

text \<open>A basket whose conversion ends in \<^verbatim>\<open>return None\<close> makes the whole call return \<^verbatim>\<open>None\<close>.\<close>

lemma convert_queries_None:
  "b \<in> set bs \<Longrightarrow> convert_query proc b = None \<Longrightarrow> convert_queries proc bs = None"
  by (induction bs) (auto split: option.splits)

text \<open>
  C7. The claim is what the code is after, and the code misses it: the \<^verbatim>\<open>return None\<close>
  for a query without tokens stands inside the loop over the baskets. With the query
  \<^verbatim>\<open>"?"\<close> in the first of two dictionaries, \<^verbatim>\<open>_convert_queries\<close> returns \<^verbatim>\<open>None\<close>: the
  second basket is not converted, although on its own it would be, and the caller, which
  iterates over the result, fails with a TypeError.
\<close>

theorem zero_token_query_ends_all_conversion:
  "convert_queries char_processor (fill_baskets [question_mark_dict, retrieval_dict] None) = None
   \<and> ts_dataset_from_dicts char_processor rows_sink [question_mark_dict, retrieval_dict]
        None False = Inl TypeError
   \<and> convert_queries char_processor (fill_baskets [retrieval_dict] None) \<noteq> None"
  by (simp add: ts_dataset_from_dicts_def retrieval_eval)

text \<open>Whatever follows the first entry of \<^verbatim>\<open>all_ctx\<close> has no part in the encoding.\<close>

lemma tokenize_contexts_first_only:
  assumes "select_contexts proc k ps = Inr (pos, neg)"
    and "all_ctx proc pos neg = Inr (c # cs)"
  shows "tokenize_contexts proc k ps =
           bind_err (passage_tokenizer proc c) (\<lambda>ctx_inputs.
           bind_err (map_err (passage_convert_ids_to_tokens proc) (enc_input_ids ctx_inputs))
             (\<lambda>tokenized_passage. Inr (pos @ neg, ctx_inputs, tokenized_passage)))"
  using assms by (simp add: tokenize_contexts_def bind_err_def)

text \<open>
  C5. The claim is what the code is after, and the code misses it in one part. For a
  query with three positive and five hard negative passages, one positive and two hard
  negatives to choose and no shuffling, the chosen passages and \<^verbatim>\<open>all_ctx\<close> are the
  first positive and the first two hard negatives, in this order. But the tokenizer is
  called on \<^verbatim>\<open>all_ctx[0]\<close>: the stored \<^verbatim>\<open>passage_input_ids\<close> are the ids of the first
  passage \<^verbatim>\<open>"p1"\<close> alone, not one sequence for each of the three entries.
\<close>

theorem only_first_context_is_tokenized:
  "select_contexts char_processor 0
     [psg ''positive'' ''p1'', psg ''hard_negative'' ''n1'', psg ''positive'' ''p2'',
      psg ''hard_negative'' ''n2'', psg ''hard_negative'' ''n3'', psg ''positive'' ''p3'',
      psg ''hard_negative'' ''n4'', psg ''hard_negative'' ''n5'']
     = Inr ([psg ''positive'' ''p1''], [psg ''hard_negative'' ''n1'', psg ''hard_negative'' ''n2''])
   \<and> all_ctx char_processor [psg ''positive'' ''p1'']
        [psg ''hard_negative'' ''n1'', psg ''hard_negative'' ''n2'']
     = Inr [CtxText ''p1'', CtxText ''n1'', CtxText ''n2'']
   \<and> map_sum id (map (\<lambda>b. map ft_passage_input_ids (basket_rows b)))
        (convert_contexts char_processor
           (convert_queries char_processor (fill_baskets [retrieval_dict] None)))
     = Inr [[Some (char_ids ''p1'')]]
   \<and> char_ids ''p1'' = [112, 49]"
  by (simp add: retrieval_eval)

section \<open>The QA pipeline\<close>

text \<open>
  No stage reads the set of problematic ids: a processor that differs in that set only
  gives the same results at every stage.
\<close>

lemma cfg_state:
  "tokenizer (p\<lparr>problematic_sample_ids := S\<rparr>) = tokenizer p"
  "max_seq_len (p\<lparr>problematic_sample_ids := S\<rparr>) = max_seq_len p"
  "doc_stride (p\<lparr>problematic_sample_ids := S\<rparr>) = doc_stride p"
  "max_query_length (p\<lparr>problematic_sample_ids := S\<rparr>) = max_query_length p"
  "max_answers (p\<lparr>problematic_sample_ids := S\<rparr>) = max_answers p"
  "sp_toks_start (p\<lparr>problematic_sample_ids := S\<rparr>) = sp_toks_start p"
  "sp_toks_mid (p\<lparr>problematic_sample_ids := S\<rparr>) = sp_toks_mid p"
  "sp_toks_end (p\<lparr>problematic_sample_ids := S\<rparr>) = sp_toks_end p"
  "baskets (p\<lparr>problematic_sample_ids := S\<rparr>) = baskets p"
  by simp_all

lemma convert_qa_input_dict_state:
  "convert_qa_input_dict (p\<lparr>problematic_sample_ids := S\<rparr>) = convert_qa_input_dict p"
  unfolding convert_qa_input_dict_def cfg_state by (rule refl)

lemma split_docs_into_passages_state:
  "split_docs_into_passages (p\<lparr>problematic_sample_ids := S\<rparr>) = split_docs_into_passages p"
  unfolding split_docs_into_passages_def split_basket_def span_to_sample_def cfg_state
  by (rule refl)

lemma convert_answer_state:
  "convert_answer (p\<lparr>problematic_sample_ids := S\<rparr>) = convert_answer p"
  unfolding convert_answer_def answer_span_def cfg_state by (rule refl)

lemma convert_answer_loop_state:
  "convert_answer_loop (p\<lparr>problematic_sample_ids := S\<rparr>) env r tk i as L
     = convert_answer_loop p env r tk i as L"
  by (induction as arbitrary: i L)
     (simp_all add: convert_answer_state cong: sum.case_cong option.case_cong)

lemma convert_answer_loop_state_fun:
  "convert_answer_loop (p\<lparr>problematic_sample_ids := S\<rparr>) = convert_answer_loop p"
  by (intro ext) (rule convert_answer_loop_state)

lemma convert_answers_sample_state:
  "convert_answers_sample (p\<lparr>problematic_sample_ids := S\<rparr>) = convert_answers_sample p"
  unfolding convert_answers_sample_def convert_answer_loop_state_fun cfg_state
  by (rule refl)

lemma convert_answers_samples_state:
  "convert_answers_samples (p\<lparr>problematic_sample_ids := S\<rparr>) env r e ss
     = convert_answers_samples p env r e ss"
  by (induction ss arbitrary: e)
     (simp_all add: convert_answers_sample_state cong: sum.case_cong)

lemma convert_answers_samples_state_fun:
  "convert_answers_samples (p\<lparr>problematic_sample_ids := S\<rparr>) = convert_answers_samples p"
  by (intro ext) (rule convert_answers_samples_state)

lemma convert_answers_basket_state:
  "convert_answers_basket (p\<lparr>problematic_sample_ids := S\<rparr>) = convert_answers_basket p"
  unfolding convert_answers_basket_def convert_answers_samples_state_fun by (rule refl)

lemma convert_answers_state:
  "convert_answers (p\<lparr>problematic_sample_ids := S\<rparr>) env bs = convert_answers p env bs"
  by (induction bs)
     (simp_all add: convert_answers_basket_state cong: sum.case_cong)

lemma sample_to_features_state:
  "sample_to_features (p\<lparr>problematic_sample_ids := S\<rparr>) = sample_to_features p"
  unfolding sample_to_features_def feature_arrays_def label_check_def cfg_state
  by (rule refl)

lemma features_samples_state:
  "features_samples (p\<lparr>problematic_sample_ids := S\<rparr>) rb loc ss = features_samples p rb loc ss"
  by (induction ss arbitrary: loc)
     (simp_all add: sample_to_features_state cong: sum.case_cong)

lemma features_samples_state_fun:
  "features_samples (p\<lparr>problematic_sample_ids := S\<rparr>) = features_samples p"
  by (intro ext) (rule features_samples_state)

lemma features_baskets_state:
  "features_baskets (p\<lparr>problematic_sample_ids := S\<rparr>) rb loc bs = features_baskets p rb loc bs"
  by (induction bs arbitrary: loc)
     (simp_all add: features_samples_state_fun cong: sum.case_cong option.case_cong)

lemma log_samples_no_baskets: "log_samples rnd n [] = Inr ()"
  by (simp add: log_samples_def)

lemma passages_to_paddle_features_state:
  assumes "passages_to_paddle_features p bs rb = Inr (bs', p1)"
  shows "\<exists>ids. p1 = p\<lparr>problematic_sample_ids := problematic_sample_ids p \<union> ids\<rparr>
          \<and> (\<forall>S. passages_to_paddle_features (p\<lparr>problematic_sample_ids := S\<rparr>) bs rb
                 = Inr (bs', p\<lparr>problematic_sample_ids := S \<union> ids\<rparr>))"
  using assms
  by (auto simp: passages_to_paddle_features_def bind_err_def features_baskets_state
           split: sum.splits)

lemma dataset_from_dicts_state:
  assumes run: "dataset_from_dicts p env rnd dicts indices rb = Inr (out, p1)"
    and nb: "baskets p = []"
  shows "\<exists>ids. p1 = p\<lparr>problematic_sample_ids := problematic_sample_ids p \<union> ids\<rparr>
           \<and> res_problematic_sample_ids out = problematic_sample_ids p \<union> ids
           \<and> (\<forall>S rnd'. dataset_from_dicts (p\<lparr>problematic_sample_ids := S\<rparr>) env rnd' dicts indices rb
                 = Inr (out\<lparr>res_problematic_sample_ids := S \<union> ids\<rparr>,
                        p\<lparr>problematic_sample_ids := S \<union> ids\<rparr>))"
proof -
  define answered where "answered q bs1 =
      (if \<not> rb then bind_err (convert_answers q env (split_docs_into_passages q env bs1))
                      (\<lambda>(bs, ws). Inr bs)
       else Inr (split_docs_into_passages q env bs1))" for q bs1
  have answered_state: "answered (p\<lparr>problematic_sample_ids := S\<rparr>) = answered p" for S
    by (intro ext) (simp add: answered_def convert_answers_state split_docs_into_passages_state)
  have unfold: "dataset_from_dicts q env r dicts indices rb =
     bind_err (map_err (convert_qa_input_dict q) dicts) (\<lambda>pre_baskets.
     bind_err (tokenize_batch_question_answering env pre_baskets (tokenizer q) indices)
       (\<lambda>bs1.
     bind_err (answered q bs1) (\<lambda>bs3.
     bind_err (passages_to_paddle_features q bs3 rb) (\<lambda>(bs4, q1).
     bind_err (create_dataset env bs4) (\<lambda>(dataset, tensor_names, bs5).
     bind_err (if truthy_list indices \<and> 0 \<in> set (the indices)
               then log_samples r 1 (baskets q1) else Inr ()) (\<lambda>_.
       Inr (\<lparr>res_dataset = dataset, res_tensor_names = tensor_names,
             res_problematic_sample_ids = problematic_sample_ids q1,
             res_baskets = (if rb then Some bs5 else None)\<rparr>, q1)))))))" for q r
    unfolding dataset_from_dicts_def answered_def by (rule refl)
  from run obtain pre bs1 bs3 bs4 pp ds tn bs5 where
    a: "map_err (convert_qa_input_dict p) dicts = Inr pre"
    and b: "tokenize_batch_question_answering env pre (tokenizer p) indices = Inr bs1"
    and c: "answered p bs1 = Inr bs3"
    and d: "passages_to_paddle_features p bs3 rb = Inr (bs4, pp)"
    and e: "create_dataset env bs4 = Inr (ds, tn, bs5)"
    and g: "out = \<lparr>res_dataset = ds, res_tensor_names = tn,
             res_problematic_sample_ids = problematic_sample_ids pp,
             res_baskets = (if rb then Some bs5 else None)\<rparr>"
    and h: "p1 = pp"
    unfolding unfold
    by (auto simp: bind_err_def split: sum.splits prod.splits if_splits)
  from passages_to_paddle_features_state [OF d] obtain ids where
    pp: "pp = p\<lparr>problematic_sample_ids := problematic_sample_ids p \<union> ids\<rparr>"
    and d': "\<And>S. passages_to_paddle_features (p\<lparr>problematic_sample_ids := S\<rparr>) bs3 rb
                 = Inr (bs4, p\<lparr>problematic_sample_ids := S \<union> ids\<rparr>)"
    by blast
  have again: "dataset_from_dicts (p\<lparr>problematic_sample_ids := S\<rparr>) env rnd' dicts indices rb
                 = Inr (out\<lparr>res_problematic_sample_ids := S \<union> ids\<rparr>,
                        p\<lparr>problematic_sample_ids := S \<union> ids\<rparr>)" for S rnd'
    unfolding unfold
    by (simp add: convert_qa_input_dict_state a b answered_state c d' e g nb
          log_samples_no_baskets bind_err_def)
  from pp h g again show ?thesis by auto
qed

text \<open>
  C9. The collaborators are functions of their arguments. What a second call of
  \<^verbatim>\<open>dataset_from_dicts\<close> can see of the first one is the processor, whose set of
  problematic ids has grown, and other random numbers for the logging of samples
  (\<^verbatim>\<open>self.baskets\<close> is empty since the construction, so nothing is logged). When a call
  returns, a second call on the processor it leaves, with the same dictionaries, indices
  and \<^verbatim>\<open>return_baskets\<close>, returns as well, and with the same dataset (that is, the same
  feature rows handed to the sink), the same tensor names, the same baskets and the same
  set of problematic ids.
\<close>

theorem dataset_from_dicts_repeatable:
  assumes nb: "baskets p = []"
    and run: "dataset_from_dicts p env rnd dicts indices rb = Inr (out1, p1)"
  shows "\<exists>out2 p2. dataset_from_dicts p1 env rnd' dicts indices rb = Inr (out2, p2)
           \<and> res_dataset out2 = res_dataset out1
           \<and> res_tensor_names out2 = res_tensor_names out1
           \<and> res_baskets out2 = res_baskets out1
           \<and> res_problematic_sample_ids out2 = res_problematic_sample_ids out1"
proof -
  from dataset_from_dicts_state [OF run nb] obtain ids where
    p1: "p1 = p\<lparr>problematic_sample_ids := problematic_sample_ids p \<union> ids\<rparr>"
    and o: "res_problematic_sample_ids out1 = problematic_sample_ids p \<union> ids"
    and again: "\<And>S rnd'. dataset_from_dicts (p\<lparr>problematic_sample_ids := S\<rparr>) env rnd' dicts indices rb
                 = Inr (out1\<lparr>res_problematic_sample_ids := S \<union> ids\<rparr>,
                        p\<lparr>problematic_sample_ids := S \<union> ids\<rparr>)"
    by blast
  from again [of "problematic_sample_ids p \<union> ids" rnd'] p1 o show ?thesis
    by simp
qed

lemma pipeline_run:
  "map_sum id (\<lambda>(out, p1). (res_dataset out, res_tensor_names out, res_baskets out,
                             res_problematic_sample_ids out, problematic_sample_ids p1))
     (dataset_from_dicts (example_processor 10 2 3 2) pipeline_env (\<lambda>k. 0)
        [abcd_dict [\<lparr>ans_text = ''b'', ans_answer_start = 2\<rparr>],
         abcd_dict [\<lparr>ans_text = ''c'', ans_answer_start = 2\<rparr>]] (Some [0, 1]) False)
   = Inr ([abcd_row], [], None, {''1-0-0''}, {''1-0-0''})"
  by code_simp

theorem dataset_from_dicts_repeatable_witness:
  "\<exists>out1 p1 out2 p2.
     dataset_from_dicts (example_processor 10 2 3 2) pipeline_env (\<lambda>k. 0)
        [abcd_dict [\<lparr>ans_text = ''b'', ans_answer_start = 2\<rparr>],
         abcd_dict [\<lparr>ans_text = ''c'', ans_answer_start = 2\<rparr>]] (Some [0, 1]) False
       = Inr (out1, p1)
     \<and> dataset_from_dicts p1 pipeline_env (\<lambda>k. k)
        [abcd_dict [\<lparr>ans_text = ''b'', ans_answer_start = 2\<rparr>],
         abcd_dict [\<lparr>ans_text = ''c'', ans_answer_start = 2\<rparr>]] (Some [0, 1]) False
       = Inr (out2, p2)
     \<and> res_dataset out1 = [abcd_row] \<and> res_dataset out2 = [abcd_row]
     \<and> problematic_sample_ids (example_processor 10 2 3 2) = {}
     \<and> problematic_sample_ids p1 = {''1-0-0''}"
proof -
  let ?dicts = "[abcd_dict [\<lparr>ans_text = ''b'', ans_answer_start = 2\<rparr>],
                 abcd_dict [\<lparr>ans_text = ''c'', ans_answer_start = 2\<rparr>]]"
  have nb: "baskets (example_processor 10 2 3 2) = []"
    by (simp add: example_processor_def)
  from pipeline_run obtain out1 p1 where
    run: "dataset_from_dicts (example_processor 10 2 3 2) pipeline_env (\<lambda>k. 0) ?dicts
            (Some [0, 1]) False = Inr (out1, p1)"
    and rows: "res_dataset out1 = [abcd_row]"
    and ids: "problematic_sample_ids p1 = {''1-0-0''}"
    by (cases "dataset_from_dicts (example_processor 10 2 3 2) pipeline_env (\<lambda>k. 0) ?dicts
                 (Some [0, 1]) False") auto
  from dataset_from_dicts_repeatable [OF nb run, of "\<lambda>k. k"] obtain out2 p2 where
    again: "dataset_from_dicts p1 pipeline_env (\<lambda>k. k) ?dicts (Some [0, 1]) False
              = Inr (out2, p2)"
    and same: "res_dataset out2 = res_dataset out1"
    by blast
  have "problematic_sample_ids (example_processor 10 2 3 2) = {}"
    by (simp add: example_processor_def)
  with run again rows same ids show ?thesis by auto
qed

end
